theory Spec2Isabelle
  imports Complex_Main
begin

section \<open>The learner template of surreal: \<open>surreal/learner/base.py\<close>\<close>

text \<open>
  The module defines the prefetch queue between the fetch client pool and the training
  loop, the registry of learner classes, and the learner core with its one-time
  initialisation, its main loop and its timing statistics.

  Conventions of the embedding:
  \<^item> Python objects that are mutated through \<open>self\<close> are records, passed in and returned.
  \<^item> The three \<open>TimeRecorder\<close> objects live in a store (\<open>timers\<close>), and the objects that
    hold them keep a reference, because \<open>LearnerCore.__init__\<close> keeps a second reference
    to the queue's recorder.
  \<^item> A call either returns, raises, or blocks for ever: the three cases of \<open>outcome\<close>.
    The state that comes back with \<open>Raise\<close> is the state at the \<open>raise\<close>, as in Python.
  \<^item> Python floats are idealised as reals, Python integers are \<open>int\<close>.
\<close>

subsection \<open>Exceptions and outcomes\<close>

datatype error =
    RuntimeError string
  | NotImplementedError
  | AttributeError
  | KeyError string

datatype 'a outcome = Return 'a | Raise error | Blocked

definition bind :: "('s \<Rightarrow> 'a outcome \<times> 's) \<Rightarrow> ('a \<Rightarrow> 's \<Rightarrow> 'c outcome \<times> 's) \<Rightarrow> 's \<Rightarrow> 'c outcome \<times> 's" where
  "bind m f s = (case m s of
       (Return a, s') \<Rightarrow> f a s'
     | (Raise e, s') \<Rightarrow> (Raise e, s')
     | (Blocked, s') \<Rightarrow> (Blocked, s'))"

subsection \<open>\<open>queue.Queue\<close> of the Python standard library\<close>

text \<open>
  \<open>queue.Queue(maxsize)\<close> keeps its items in a deque: \<open>put\<close> appends on the right,
  \<open>get\<close> pops on the left, \<open>qsize\<close> is the length. With \<open>block=True\<close> and no timeout,
  \<open>put\<close> waits while \<open>maxsize > 0\<close> and \<open>qsize() >= maxsize\<close>, and \<open>get\<close> waits
  while the queue is empty. A \<open>maxsize\<close> of zero or less means an unbounded queue.
  \<open>None\<close> stands for a caller that has to wait.
\<close>

record 'a Queue =
  items :: "'a list"
  maxsize :: int

definition Queue_new :: "int \<Rightarrow> 'a Queue" where
  "Queue_new n = \<lparr>items = [], maxsize = n\<rparr>"

definition qsize :: "'a Queue \<Rightarrow> int" where
  "qsize Q = int (length (items Q))"

definition put :: "'a \<Rightarrow> 'a Queue \<Rightarrow> 'a Queue option" where
  "put x Q = (if 0 < maxsize Q \<and> maxsize Q \<le> qsize Q then None
              else Some (Q\<lparr>items := items Q @ [x]\<rparr>))"

definition get :: "'a Queue \<Rightarrow> ('a \<times> 'a Queue) option" where
  "get Q = (case items Q of [] \<Rightarrow> None | x # xs \<Rightarrow> Some (x, Q\<lparr>items := xs\<rparr>))"

subsection \<open>\<open>U.TimeRecorder\<close>\<close>

text \<open>
  Modelled from the spec: \<open>surreal.utils.TimeRecorder\<close> is not part of the source at
  hand. The spec's Timing Recorder "accumulates count and total duration per phase" and
  "exposes running mean"; its timing wrapper "records the wall-clock duration" of the
  block it encloses. The spec gives no mean for a recorder that has recorded nothing; the
  model's \<open>avg\<close> is 0 there.
\<close>

record TimeRecorder =
  tr_count :: nat
  tr_total :: real

definition TimeRecorder_new :: TimeRecorder where
  "TimeRecorder_new = \<lparr>tr_count = 0, tr_total = 0\<rparr>"

definition record_interval :: "real \<Rightarrow> TimeRecorder \<Rightarrow> TimeRecorder" where
  "record_interval d t = \<lparr>tr_count = Suc (tr_count t), tr_total = tr_total t + d\<rparr>"

definition avg :: "TimeRecorder \<Rightarrow> real" where
  "avg t = (if tr_count t = 0 then 0 else tr_total t / real (tr_count t))"

subsection \<open>The world around the objects\<close>

text \<open>
  \<open>timers\<close> is the store of recorders, \<open>next_ref\<close> the next unused object identity,
  \<open>clock\<close> the wall clock. \<open>calls\<close> lists the calls that leave the module or go to a
  method the subclass supplies, in the order they are made; the code keeps no such
  list, it is what an observer of the process would see. \<open>waiting\<close> holds the items
  whose producer thread is inside \<open>_enqueue\<close>, waiting in \<open>put\<close> for room in the queue,
  the longest-waiting first.
\<close>

datatype 'b call =
    CallGet 'b
  | CallLearn 'b
  | CallPublish int string
  | CallModuleDict
  | CallClientStart

record 'b world =
  timers :: "nat \<Rightarrow> TimeRecorder"
  next_ref :: nat
  clock :: real
  calls :: "'b call list"
  waiting :: "'b list"

definition new_TimeRecorder :: "'b world \<Rightarrow> nat \<times> 'b world" where
  "new_TimeRecorder w =
     (next_ref w, w\<lparr>timers := (timers w)(next_ref w := TimeRecorder_new),
                    next_ref := Suc (next_ref w)\<rparr>)"

definition elapse :: "real \<Rightarrow> 'b world \<Rightarrow> 'b world" where
  "elapse d w = w\<lparr>clock := clock w + d\<rparr>"

definition called :: "'b call \<Rightarrow> 'b world \<Rightarrow> 'b world" where
  "called c w = w\<lparr>calls := calls w @ [c]\<rparr>"

text \<open>The \<open>publish\<close> calls of a list of calls, in order.\<close>

fun publishes :: "'b call list \<Rightarrow> (int \<times> string) list" where
  "publishes [] = []"
| "publishes (CallPublish i msg # cs) = (i, msg) # publishes cs"
| "publishes (c # cs) = publishes cs"

definition record_in :: "nat \<Rightarrow> real \<Rightarrow> (nat \<Rightarrow> TimeRecorder) \<Rightarrow> (nat \<Rightarrow> TimeRecorder)" where
  "record_in r d T = T(r := record_interval d (T r))"

text \<open>
  \<open>with r.time(): body\<close>: the recorder referenced by \<open>r\<close> receives the wall-clock time
  between entering and leaving the block. A block that raises or never returns records
  nothing (the spec is silent on it, and no statement below depends on it).
\<close>

definition timed :: "nat \<Rightarrow> ('s \<times> 'b world \<Rightarrow> 'a outcome \<times> 's \<times> 'b world)
                       \<Rightarrow> 's \<times> 'b world \<Rightarrow> 'a outcome \<times> 's \<times> 'b world" where
  "timed r body s =
     (let pre_time = clock (snd s) in
      case body s of
        (Return a, s', w') \<Rightarrow>
          (Return a, s',
           w'\<lparr>timers := record_in r (clock w' - pre_time) (timers w')\<rparr>)
      | (Raise e, sw) \<Rightarrow> (Raise e, sw)
      | (Blocked, sw) \<Rightarrow> (Blocked, sw))"

subsection \<open>\<open>PrefetchBatchQueue\<close>\<close>

text \<open>
  Modelled from the spec: \<open>surreal.distributed.ZmqClientPool\<close> is not part of the source
  at hand. The spec's Fetch Client Pool requests batches of \<open>request\<close> items from
  \<open>(host, port)\<close> and hands each response to its handler, here \<open>_enqueue\<close>; \<open>starts\<close> counts
  the background fetch activities that \<open>start()\<close> has launched.
\<close>

record ZmqClientPool =
  host :: string
  port :: int
  request :: int
  starts :: nat

text \<open>
  \<open>enqueue_thread\<close> is \<open>True\<close> when \<open>self._enqueue_thread\<close> is not \<open>None\<close> (it is then the
  client itself). \<open>timer\<close> is the reference to \<open>self.timer\<close>.
\<close>

record 'b PrefetchBatchQueue =
  queue :: "'b Queue"
  batch_size :: int
  client :: ZmqClientPool
  enqueue_thread :: bool
  timer :: nat

definition PrefetchBatchQueue_init ::
  "string \<Rightarrow> int \<Rightarrow> int \<Rightarrow> int \<Rightarrow> 'b world \<Rightarrow> 'b PrefetchBatchQueue \<times> 'b world" where
  "PrefetchBatchQueue_init sampler_host sampler_port batch_sz max_size w =
     (let (r, w') = new_TimeRecorder w in
      (\<lparr>queue = Queue_new max_size,
        batch_size = batch_sz,
        client = \<lparr>host = sampler_host, port = sampler_port, request = batch_sz, starts = 0\<rparr>,
        enqueue_thread = False,
        timer = r\<rparr>, w'))"

text \<open>\<open>_enqueue\<close>: \<open>self._queue.put(item, block=True)\<close>.\<close>

definition enqueue :: "'b \<Rightarrow> 'b PrefetchBatchQueue \<Rightarrow> 'b PrefetchBatchQueue option" where
  "enqueue item q = map_option (\<lambda>Q. q\<lparr>queue := Q\<rparr>) (put item (queue q))"

definition start_enqueue_thread ::
  "'b PrefetchBatchQueue \<times> 'b world \<Rightarrow> unit outcome \<times> 'b PrefetchBatchQueue \<times> 'b world" where
  "start_enqueue_thread s =
     (case s of (q, w) \<Rightarrow>
        if enqueue_thread q then (Raise (RuntimeError ''Enqueue thread is already running''), q, w)
        else (Return (),
              q\<lparr>enqueue_thread := True, client := (client q)\<lparr>starts := Suc (starts (client q))\<rparr>\<rparr>,
              called CallClientStart w))"

text \<open>
  \<open>dequeue\<close>: \<open>with self.timer.time(): return self._queue.get(block=True)\<close>. The argument
  \<open>d\<close> is the wall-clock time the call to \<open>get\<close> takes, waiting included.
\<close>

definition dequeue ::
  "real \<Rightarrow> 'b PrefetchBatchQueue \<times> 'b world \<Rightarrow> 'b outcome \<times> 'b PrefetchBatchQueue \<times> 'b world" where
  "dequeue d s =
     timed (timer (fst s))
       (\<lambda>(q, w). case get (queue q) of
                   None \<Rightarrow> (Blocked, q, w)
                 | Some (x, Q) \<Rightarrow> (Return x, q\<lparr>queue := Q\<rparr>, called (CallGet x) (elapse d w)))
       s"

text \<open>\<open>__len__\<close>: \<open>self._queue.qsize()\<close>.\<close>

definition len :: "'b PrefetchBatchQueue \<Rightarrow> int" where
  "len q = qsize (queue q)"

subsection \<open>Producers and the consumer at work on one queue\<close>

text \<open>
  The queue's operations are atomic (the standard library guards them with one mutex),
  so what the threads do to the queue is a sequence of attempts. An attempt that has to
  wait changes nothing: the thread stays in the call, and its later success is a later
  attempt of the sequence. \<open>enqueued\<close> and \<open>dequeued\<close> list the items of the completed
  calls, in the order the calls completed.
\<close>

datatype 'b attempt = Enqueue 'b | Dequeue real

record 'b run =
  pq :: "'b PrefetchBatchQueue"
  wd :: "'b world"
  enqueued :: "'b list"
  dequeued :: "'b list"

definition attempt :: "'b run \<Rightarrow> 'b attempt \<Rightarrow> 'b run" where
  "attempt r a =
     (case a of
        Enqueue x \<Rightarrow>
          (case enqueue x (pq r) of
             None \<Rightarrow> r
           | Some q' \<Rightarrow> r\<lparr>pq := q', enqueued := enqueued r @ [x]\<rparr>)
      | Dequeue d \<Rightarrow>
          (case dequeue d (pq r, wd r) of
             (Return x, q', w') \<Rightarrow> r\<lparr>pq := q', wd := w', dequeued := dequeued r @ [x]\<rparr>
           | (Raise e, q', w') \<Rightarrow> r
           | (Blocked, q', w') \<Rightarrow> r))"

definition fresh_run :: "string \<Rightarrow> int \<Rightarrow> int \<Rightarrow> int \<Rightarrow> 'b world \<Rightarrow> 'b run" where
  "fresh_run sampler_host sampler_port batch_sz max_size w =
     (let (q, w') = PrefetchBatchQueue_init sampler_host sampler_port batch_sz max_size w in
      \<lparr>pq = q, wd = w', enqueued = [], dequeued = []\<rparr>)"

definition attempts :: "'b run \<Rightarrow> 'b attempt list \<Rightarrow> 'b run" where
  "attempts r as = foldl attempt r as"

definition world0 :: "'b world" where
  "world0 = \<lparr>timers = (\<lambda>_. TimeRecorder_new), next_ref = 0, clock = 0, calls = [],
               waiting = []\<rparr>"

subsection \<open>The registry of learner classes\<close>

text \<open>
  A class object as \<open>type.__new__(meta, name, bases, class_dict)\<close> makes it: its
  \<open>__name__\<close> is \<open>name\<close>. \<open>cls_id\<close> is the identity of the object, \<open>cls_bases\<close> the
  identities of its bases. \<open>U.AutoInitializeMeta\<close>, the metaclass \<open>LearnerMeta\<close>
  extends, is not part of the source at hand; it is taken to build the class as \<open>type\<close>
  does.
\<close>

record 'd class_obj =
  cls_id :: nat
  cls_name :: string
  cls_bases :: "nat list"
  cls_dict :: 'd

text \<open>The module's globals: \<open>learner_registry\<close>, and the next unused class identity.\<close>

record 'd globals =
  learner_registry :: "string \<rightharpoonup> 'd class_obj"
  next_cls_id :: nat

definition globals0 :: "'d globals" where
  "globals0 = \<lparr>learner_registry = Map.empty, next_cls_id = 0\<rparr>"

definition register_learner :: "'d class_obj \<Rightarrow> 'd globals \<Rightarrow> 'd globals" where
  "register_learner target_class g =
     g\<lparr>learner_registry := (learner_registry g)(cls_name target_class \<mapsto> target_class)\<rparr>"

definition learnerFactory :: "string \<Rightarrow> 'd globals \<Rightarrow> 'd class_obj outcome" where
  "learnerFactory learner_name g =
     (case learner_registry g learner_name of
        None \<Rightarrow> Raise (KeyError learner_name)
      | Some c \<Rightarrow> Return c)"

text \<open>\<open>LearnerMeta.__new__\<close>, run by every \<open>class\<close> statement whose metaclass it is.\<close>

definition LearnerMeta_new ::
  "string \<Rightarrow> nat list \<Rightarrow> 'd \<Rightarrow> 'd globals \<Rightarrow> 'd class_obj \<times> 'd globals" where
  "LearnerMeta_new name bases class_dict g =
     (let cls = \<lparr>cls_id = next_cls_id g, cls_name = name, cls_bases = bases,
                 cls_dict = class_dict\<rparr>
      in (cls, register_learner cls (g\<lparr>next_cls_id := Suc (next_cls_id g)\<rparr>)))"

text \<open>
  Importing the module runs its two class statements, \<open>class LearnerCore(metaclass=LearnerMeta)\<close>
  and \<open>class Learner(LearnerCore)\<close>; the arguments are the two class bodies.
\<close>

definition import_module :: "'d \<Rightarrow> 'd \<Rightarrow> 'd globals" where
  "import_module core_dict learner_dict =
     (let (core, g1) = LearnerMeta_new ''LearnerCore'' [] core_dict globals0;
          (learner, g2) = LearnerMeta_new ''Learner'' [cls_id core] learner_dict g1
      in g2)"

subsection \<open>\<open>LearnerCore\<close>\<close>

text \<open>
  Modelled from the spec: \<open>surreal.distributed.ParameterPublisher\<close> is not part of the
  source at hand. The spec's Parameter Publisher is bound to the publish port and to the
  module-state mapping, and \<open>publish(iteration, message)\<close> "sends once" over the channel,
  without acknowledgement. \<open>pub_id\<close> is the identity of the publisher object; \<open>d\<close> is the
  wall-clock time the call takes.
\<close>

record 'md ParameterPublisher =
  pub_id :: nat
  pub_port :: int
  pub_module_dict :: 'md

definition publish ::
  "real \<Rightarrow> int \<Rightarrow> string \<Rightarrow> 'md ParameterPublisher \<Rightarrow> 'b world \<Rightarrow> 'b world" where
  "publish d iteration message p w = called (CallPublish iteration message) (elapse d w)"

text \<open>
  \<open>concrete\<close> holds what a concrete learner adds to \<open>self\<close>. The three timer fields are
  references into the store.
\<close>

record ('b, 'm, 'md) LearnerCore =
  ps_publisher :: "'md ParameterPublisher option"
  ps_port :: int
  prefetch_queue :: "'b PrefetchBatchQueue"
  learn_timer :: nat
  fetch_timer :: nat
  iter_timer :: nat
  concrete :: 'm

definition LearnerCore_init ::
  "string \<Rightarrow> int \<Rightarrow> int \<Rightarrow> int \<Rightarrow> int \<Rightarrow> 'm \<Rightarrow> 'b world
     \<Rightarrow> ('b, 'm, 'md) LearnerCore \<times> 'b world" where
  "LearnerCore_init sampler_host sampler_port ps_publish_port batch_sz max_prefetch_batch_queue m w =
     (let (q, w1) = PrefetchBatchQueue_init sampler_host sampler_port batch_sz
                      max_prefetch_batch_queue w;
          (lt, w2) = new_TimeRecorder w1;
          (it, w3) = new_TimeRecorder w2
      in (\<lparr>ps_publisher = None,
           ps_port = ps_publish_port,
           prefetch_queue = q,
           learn_timer = lt,
           fetch_timer = timer q,
           iter_timer = it,
           concrete = m\<rparr>, w3))"

text \<open>
  The abstract methods as \<open>LearnerCore\<close> has them. A concrete learner's \<open>learn\<close> is a
  function \<open>'b \<Rightarrow> 'm \<Rightarrow> 'r outcome \<times> 'm\<close> (it may change what the subclass holds, and
  returns a value of type \<open>'r\<close>), its \<open>module_dict\<close> a function \<open>'m \<Rightarrow> 'md outcome\<close>.
\<close>

definition LearnerCore_learn :: "'b \<Rightarrow> 'm \<Rightarrow> 'r outcome \<times> 'm" where
  "LearnerCore_learn batch_exp m = (Raise NotImplementedError, m)"

definition LearnerCore_module_dict :: "'m \<Rightarrow> 'md outcome" where
  "LearnerCore_module_dict m = Raise NotImplementedError"

text \<open>
  \<open>_initialize\<close>: the argument of \<open>ParameterPublisher(...)\<close>, \<open>self.module_dict()\<close>, is
  evaluated first; the new publisher is assigned; then the queue starts its client.
\<close>

definition initialize ::
  "('m \<Rightarrow> 'md outcome) \<Rightarrow> ('b, 'm, 'md) LearnerCore \<times> 'b world
     \<Rightarrow> unit outcome \<times> ('b, 'm, 'md) LearnerCore \<times> 'b world" where
  "initialize module_dict s =
     (case s of (L, w) \<Rightarrow>
        (case module_dict (concrete L) of
           Raise e \<Rightarrow> (Raise e, L, called CallModuleDict w)
         | Blocked \<Rightarrow> (Blocked, L, called CallModuleDict w)
         | Return md \<Rightarrow>
             (let w1 = called CallModuleDict w;
                  L1 = L\<lparr>ps_publisher :=
                          Some \<lparr>pub_id = next_ref w1, pub_port = ps_port L, pub_module_dict = md\<rparr>\<rparr>;
                  w2 = w1\<lparr>next_ref := Suc (next_ref w1)\<rparr>
              in case start_enqueue_thread (prefetch_queue L1, w2) of
                   (r, q', w3) \<Rightarrow> (r, L1\<lparr>prefetch_queue := q'\<rparr>, w3))))"

text \<open>\<open>self.learn(batch)\<close>, taking wall-clock time \<open>d\<close>.\<close>

definition call_learn ::
  "('b \<Rightarrow> 'm \<Rightarrow> 'r outcome \<times> 'm) \<Rightarrow> real \<Rightarrow> 'b \<Rightarrow> ('b, 'm, 'md) LearnerCore \<times> 'b world
     \<Rightarrow> 'r outcome \<times> ('b, 'm, 'md) LearnerCore \<times> 'b world" where
  "call_learn learn d batch s =
     (case s of (L, w) \<Rightarrow>
        (case learn batch (concrete L) of
           (r, m') \<Rightarrow> (r, L\<lparr>concrete := m'\<rparr>, called (CallLearn batch) (elapse d w))))"

text \<open>
  \<open>publish_parameter\<close>: \<open>self._ps_publisher.publish(iteration, message=message)\<close>; on a
  learner that was never initialised \<open>self._ps_publisher\<close> is \<open>None\<close>.
\<close>

definition publish_parameter ::
  "real \<Rightarrow> int \<Rightarrow> string \<Rightarrow> ('b, 'm, 'md) LearnerCore \<times> 'b world
     \<Rightarrow> unit outcome \<times> ('b, 'm, 'md) LearnerCore \<times> 'b world" where
  "publish_parameter d iteration message s =
     (case s of (L, w) \<Rightarrow>
        (case ps_publisher L of
           None \<Rightarrow> (Raise AttributeError, L, w)
         | Some p \<Rightarrow> (Return (), L, publish d iteration message p w)))"

definition fetch_batch ::
  "real \<Rightarrow> ('b, 'm, 'md) LearnerCore \<times> 'b world
     \<Rightarrow> 'b outcome \<times> ('b, 'm, 'md) LearnerCore \<times> 'b world" where
  "fetch_batch d s =
     (case s of (L, w) \<Rightarrow>
        (case dequeue d (prefetch_queue L, w) of
           (r, q', w') \<Rightarrow> (r, L\<lparr>prefetch_queue := q'\<rparr>, w')))"

text \<open>Python's \<open>str\<close> on an integer: the decimal digits, with a minus sign when negative.\<close>

definition digit :: "nat \<Rightarrow> char" where
  "digit n = ''0123456789'' ! n"

fun str_nat :: "nat \<Rightarrow> string" where
  "str_nat n = (if n < 10 then [digit n] else str_nat (n div 10) @ [digit (n mod 10)])"

definition str :: "int \<Rightarrow> string" where
  "str i = (if i < 0 then CHR ''-'' # str_nat (nat (- i)) else str_nat (nat i))"

text \<open>
  The producers' calls of \<open>_enqueue\<close> for the items \<open>xs\<close>, in this order and with no \<open>get\<close>
  in between: an item enters the queue when there is room. At the first item that finds
  the queue full its producer waits in \<open>put\<close>, and so do the producers of the items after
  it, since the queue stays full until the next \<open>get\<close>. The result is the queue and the
  items left waiting.
\<close>

fun offer :: "'b PrefetchBatchQueue \<Rightarrow> 'b list \<Rightarrow> 'b PrefetchBatchQueue \<times> 'b list" where
  "offer q [] = (q, [])"
| "offer q (x # xs) = (case enqueue x q of None \<Rightarrow> (q, x # xs) | Some q' \<Rightarrow> offer q' xs)"

text \<open>
  What the rest of the process does during one turn of the main loop: \<open>arrivals\<close> are the
  items the fetch client pool hands to \<open>_enqueue\<close> before the turn's \<open>get\<close> completes; the
  three durations are the wall-clock times of the turn's \<open>get\<close>, \<open>learn\<close> and \<open>publish\<close>.
  \<open>deliver\<close> lets the producers that are still waiting from earlier turns go first, then
  the new arrivals; what finds the queue full keeps waiting, and enters in a later turn,
  once a \<open>get\<close> has made room.
\<close>

record 'b turn =
  arrivals :: "'b list"
  fetch_dur :: real
  learn_dur :: real
  publish_dur :: real

definition deliver ::
  "'b list \<Rightarrow> ('b, 'm, 'md) LearnerCore \<times> 'b world \<Rightarrow> ('b, 'm, 'md) LearnerCore \<times> 'b world" where
  "deliver xs s =
     (case s of (L, w) \<Rightarrow>
        (case offer (prefetch_queue L) (waiting w @ xs) of
           (q', rest) \<Rightarrow> (L\<lparr>prefetch_queue := q'\<rparr>, w\<lparr>waiting := rest\<rparr>)))"

text \<open>
  \<open>main_loop\<close>: \<open>for i, batch in enumerate(self.fetch_iterator())\<close>. Each turn first
  advances the generator \<open>fetch_iterator\<close>, which calls \<open>fetch_batch\<close>; the body of the
  \<open>for\<close> then runs \<open>learn\<close> under \<open>learn_timer\<close> and, with \<open>publish_parameter\<close>, under
  \<open>iter_timer\<close>. The loop has no exit: the list of turns is the part of the run that is
  looked at, and \<open>Return ()\<close> says that all of these turns were completed.
\<close>

definition loop_body ::
  "('b \<Rightarrow> 'm \<Rightarrow> 'r outcome \<times> 'm) \<Rightarrow> 'b turn \<Rightarrow> int \<Rightarrow> 'b
     \<Rightarrow> ('b, 'm, 'md) LearnerCore \<times> 'b world
     \<Rightarrow> unit outcome \<times> ('b, 'm, 'md) LearnerCore \<times> 'b world" where
  "loop_body learn t i batch s =
     timed (iter_timer (fst s))
       (\<lambda>s1. bind (\<lambda>s2. timed (learn_timer (fst s2)) (call_learn learn (learn_dur t) batch) s2)
                (\<lambda>_. publish_parameter (publish_dur t) i (''batch '' @ str i)) s1)
       s"

fun main_loop_from ::
  "('b \<Rightarrow> 'm \<Rightarrow> 'r outcome \<times> 'm) \<Rightarrow> int \<Rightarrow> 'b turn list
     \<Rightarrow> ('b, 'm, 'md) LearnerCore \<times> 'b world
     \<Rightarrow> unit outcome \<times> ('b, 'm, 'md) LearnerCore \<times> 'b world" where
  "main_loop_from learn i [] s = (Return (), s)"
| "main_loop_from learn i (t # ts) s =
     bind (\<lambda>s0. fetch_batch (fetch_dur t) (deliver (arrivals t) s0))
       (\<lambda>batch. bind (loop_body learn t i batch)
                   (\<lambda>_. main_loop_from learn (i + 1) ts)) s"

definition main_loop ::
  "('b \<Rightarrow> 'm \<Rightarrow> 'r outcome \<times> 'm) \<Rightarrow> 'b turn list
     \<Rightarrow> ('b, 'm, 'md) LearnerCore \<times> 'b world
     \<Rightarrow> unit outcome \<times> ('b, 'm, 'md) LearnerCore \<times> 'b world" where
  "main_loop learn ts s = main_loop_from learn 0 ts s"

subsection \<open>\<open>Learner.update_tensorplex\<close>\<close>

text \<open>
  The method fills \<open>tag_value_dict\<close> and hands it, with \<open>global_step\<close>, to the periodic
  aggregator (\<open>PeriodicTensorplex\<close>, not part of the source at hand); the result is what
  is handed over.
\<close>

definition update_tensorplex ::
  "(string \<rightharpoonup> real) \<Rightarrow> int option \<Rightarrow> ('b, 'm, 'md) LearnerCore \<times> 'b world
     \<Rightarrow> (string \<rightharpoonup> real) \<times> int option" where
  "update_tensorplex tag_value_dict global_step s =
     (case s of (L, w) \<Rightarrow>
        (let learn_time = avg (timers w (learn_timer L)) + 1 / 1000000;
             fetch_time = avg (timers w (fetch_timer L)) + 1 / 1000000;
             iter_time = avg (timers w (iter_timer L)) + 1 / 1000000
         in (tag_value_dict
               (''speed/learn_time'' \<mapsto> learn_time,
                ''speed/fetch_time'' \<mapsto> fetch_time,
                ''speed/iter_time'' \<mapsto> iter_time,
                ''speed/compute_bound_percent'' \<mapsto> min (learn_time / iter_time * 100) 100,
                ''speed/io_bound_percent'' \<mapsto> min (fetch_time / iter_time * 100) 100),
             global_step)))"

subsection \<open>A concrete learner\<close>

text \<open>
  A learner whose batches are strings and whose \<open>learn\<close> and \<open>module_dict\<close> do nothing:
  freshly constructed (\<open>demo_fresh\<close>), initialised (\<open>demo_state\<close>), and after the two turns
  \<open>demo_turns\<close> of the main loop (\<open>demo_timed\<close>). The statements below are evaluated on it.
\<close>

definition demo_fresh :: "(string, unit, unit) LearnerCore \<times> string world" where
  "demo_fresh = LearnerCore_init ''sampler'' 7000 7001 32 2 () world0"

definition demo_state :: "(string, unit, unit) LearnerCore \<times> string world" where
  "demo_state = snd (initialize (\<lambda>_. Return ())
                       (LearnerCore_init ''sampler'' 7000 7001 32 2 () world0))"

definition demo_turns :: "string turn list" where
  "demo_turns = [\<lparr>arrivals = [''A'', ''B''], fetch_dur = 5, learn_dur = 2, publish_dur = 1\<rparr>,
                 \<lparr>arrivals = [''C''], fetch_dur = 0, learn_dur = 3, publish_dur = 1\<rparr>]"

text \<open>
  A learner that keeps, in what it adds to \<open>self\<close>, the batches it has learnt from, and
  whose \<open>learn\<close> returns the length of the batch.
\<close>

definition demo_learn :: "string \<Rightarrow> string list \<Rightarrow> nat outcome \<times> string list" where
  "demo_learn batch seen = (Return (length batch), seen @ [batch])"

definition demo_logging :: "(string, string list, unit) LearnerCore \<times> string world" where
  "demo_logging = snd (initialize (\<lambda>_. Return ())
                         (LearnerCore_init ''sampler'' 7000 7001 32 2 [] world0))"

definition demo_timed :: "(string, unit, unit) LearnerCore \<times> string world" where
  "demo_timed = snd (main_loop (\<lambda>b m. (Return (), m)) demo_turns demo_state)"

section \<open>Properties\<close>

lemmas eval_defs = demo_state_def demo_turns_def main_loop_def loop_body_def bind_def timed_def
  fetch_batch_def deliver_def dequeue_def get_def enqueue_def put_def qsize_def
  call_learn_def publish_parameter_def publish_def called_def elapse_def record_in_def
  record_interval_def initialize_def start_enqueue_thread_def LearnerCore_init_def
  PrefetchBatchQueue_init_def new_TimeRecorder_def TimeRecorder_new_def Queue_new_def world0_def
  str_def digit_def Let_def

subsection \<open>The prefetch queue\<close>

lemma dequeue_Return:
  "dequeue d (q, w) = (Return x, q', w') \<longleftrightarrow>
     (\<exists>xs. items (queue q) = x # xs \<and> q' = q\<lparr>queue := (queue q)\<lparr>items := xs\<rparr>\<rparr> \<and>
        w' = (called (CallGet x) (elapse d w))\<lparr>timers := record_in (timer q) d (timers w)\<rparr>)"
  by (auto simp: dequeue_def timed_def get_def called_def elapse_def Let_def
           split: list.splits)

lemma enqueue_Some:
  "enqueue x q = Some q' \<longleftrightarrow>
     \<not> (0 < maxsize (queue q) \<and> maxsize (queue q) \<le> len q) \<and>
     q' = q\<lparr>queue := (queue q)\<lparr>items := items (queue q) @ [x]\<rparr>\<rparr>"
  by (auto simp: enqueue_def put_def len_def)

lemma attempt_cases:
  obtains (Waits) "attempt r a = r"
  | (Enqueued) x where "a = Enqueue x"
      "\<not> (0 < maxsize (queue (pq r)) \<and> maxsize (queue (pq r)) \<le> len (pq r))"
      "attempt r a = r\<lparr>pq := (pq r)\<lparr>queue := (queue (pq r))\<lparr>items := items (queue (pq r)) @ [x]\<rparr>\<rparr>,
                       enqueued := enqueued r @ [x]\<rparr>"
  | (Dequeued) d x xs where "a = Dequeue d" "items (queue (pq r)) = x # xs"
      "attempt r a = r\<lparr>pq := (pq r)\<lparr>queue := (queue (pq r))\<lparr>items := xs\<rparr>\<rparr>,
                       wd := (called (CallGet x) (elapse d (wd r)))
                               \<lparr>timers := record_in (timer (pq r)) d (timers (wd r))\<rparr>,
                       dequeued := dequeued r @ [x]\<rparr>"
proof (cases a)
  case (Enqueue x)
  show ?thesis
  proof (cases "enqueue x (pq r)")
    case None
    with Enqueue have "attempt r a = r" by (simp add: attempt_def)
    then show ?thesis by (rule Waits)
  next
    case (Some q')
    then have q': "\<not> (0 < maxsize (queue (pq r)) \<and> maxsize (queue (pq r)) \<le> len (pq r))"
      "q' = (pq r)\<lparr>queue := (queue (pq r))\<lparr>items := items (queue (pq r)) @ [x]\<rparr>\<rparr>"
      by (simp_all add: enqueue_Some)
    from Enqueue Some have "attempt r a = r\<lparr>pq := q', enqueued := enqueued r @ [x]\<rparr>"
      by (simp add: attempt_def)
    with q' Enqueue show ?thesis by (intro Enqueued) simp_all
  qed
next
  case (Dequeue d)
  obtain res q' w' where dq: "dequeue d (pq r, wd r) = (res, q', w')"
    by (cases "dequeue d (pq r, wd r)") auto
  show ?thesis
  proof (cases res)
    case (Return x)
    with dq obtain xs where xs: "items (queue (pq r)) = x # xs"
      "q' = (pq r)\<lparr>queue := (queue (pq r))\<lparr>items := xs\<rparr>\<rparr>"
      "w' = (called (CallGet x) (elapse d (wd r)))
               \<lparr>timers := record_in (timer (pq r)) d (timers (wd r))\<rparr>"
      by (auto simp: dequeue_Return)
    from Dequeue dq Return
    have "attempt r a = r\<lparr>pq := q', wd := w', dequeued := dequeued r @ [x]\<rparr>"
      by (simp add: attempt_def)
    with xs Dequeue show ?thesis by (intro Dequeued) simp_all
  next
    case (Raise e)
    with Dequeue dq have "attempt r a = r" by (simp add: attempt_def)
    then show ?thesis by (rule Waits)
  next
    case Blocked
    with Dequeue dq have "attempt r a = r" by (simp add: attempt_def)
    then show ?thesis by (rule Waits)
  qed
qed

lemma attempt_fifo:
  "dequeued r @ items (queue (pq r)) = enqueued r \<Longrightarrow>
   dequeued (attempt r a) @ items (queue (pq (attempt r a))) = enqueued (attempt r a)"
  by (rule attempt_cases [where r = r and a = a]) simp_all

lemma attempts_fifo:
  "dequeued r @ items (queue (pq r)) = enqueued r \<Longrightarrow>
   dequeued (attempts r as) @ items (queue (pq (attempts r as))) = enqueued (attempts r as)"
  unfolding attempts_def
  by (induction as arbitrary: r) (simp_all add: attempt_fifo)

lemma fresh_run_fields:
  "items (queue (pq (fresh_run h p b m w))) = []"
  "maxsize (queue (pq (fresh_run h p b m w))) = m"
  "enqueued (fresh_run h p b m w) = []"
  "dequeued (fresh_run h p b m w) = []"
  by (simp_all add: fresh_run_def PrefetchBatchQueue_init_def new_TimeRecorder_def Queue_new_def)

text \<open>
  Claim C4. The prefetch queue is first-in first-out. Whatever the threads attempt, and in
  whatever order, the items returned by the completed \<open>dequeue\<close> calls, followed by the
  items still in the queue, are the items of the completed \<open>_enqueue\<close> calls in the order
  these completed (for one producer, the order in which it enqueued them). And a
  \<open>dequeue\<close> that returns takes the oldest item of the queue.
\<close>

theorem prefetch_queue_fifo:
  "dequeued (attempts (fresh_run h p b m (w :: 'b world)) as) @ items (queue (pq (attempts (fresh_run h p b m w) as)))
     = enqueued (attempts (fresh_run h p b m w) as)
   \<and> (dequeue d (q, w0 :: 'b world) = (Return x, q', w') \<longrightarrow>
         items (queue q) = x # items (queue q'))"
proof
  show "dequeued (attempts (fresh_run h p b m w) as) @ items (queue (pq (attempts (fresh_run h p b m w) as)))
     = enqueued (attempts (fresh_run h p b m w) as)"
    by (rule attempts_fifo) (simp add: fresh_run_fields)
  show "dequeue d (q, w0) = (Return x, q', w') \<longrightarrow>
         items (queue q) = x # items (queue q')"
    by (auto simp: dequeue_Return)
qed

theorem prefetch_queue_fifo_witness:
  "dequeued (attempts (fresh_run ''sampler'' 7000 32 2 (world0 :: string world))
       [Enqueue ''A'', Enqueue ''B'', Enqueue ''C'', Dequeue 1, Enqueue ''C'', Dequeue 2, Dequeue 1, Dequeue 1])
     = [''A'', ''B'', ''C'']
   \<and> enqueued (attempts (fresh_run ''sampler'' 7000 32 2 (world0 :: string world))
       [Enqueue ''A'', Enqueue ''B'', Enqueue ''C'', Dequeue 1, Enqueue ''C'', Dequeue 2, Dequeue 1, Dequeue 1])
     = [''A'', ''B'', ''C'']
   \<and> fst (dequeue 1 (pq (attempts (fresh_run ''sampler'' 7000 32 2 (world0 :: string world))
                            [Enqueue ''A'', Enqueue ''B'']),
                     wd (attempts (fresh_run ''sampler'' 7000 32 2 (world0 :: string world))
                            [Enqueue ''A'', Enqueue ''B'']))) = Return ''A''
   \<and> items (queue (pq (attempts (fresh_run ''sampler'' 7000 32 2 (world0 :: string world))
                            [Enqueue ''A'', Enqueue ''B''])))
       = ''A'' # items (queue (fst (snd (dequeue 1
            (pq (attempts (fresh_run ''sampler'' 7000 32 2 (world0 :: string world))
                            [Enqueue ''A'', Enqueue ''B'']),
             wd (attempts (fresh_run ''sampler'' 7000 32 2 (world0 :: string world))
                            [Enqueue ''A'', Enqueue ''B'']))))))"
proof -
  let ?r = "attempts (fresh_run ''sampler'' 7000 32 2 (world0 :: string world))
                            [Enqueue ''A'', Enqueue ''B'']"
  let ?D = "dequeue 1 (pq ?r, wd ?r)"
  have e: "fst ?D = Return ''A''"
    by (simp add: attempts_def attempt_def fresh_run_def PrefetchBatchQueue_init_def
        new_TimeRecorder_def Queue_new_def world0_def enqueue_def put_def qsize_def dequeue_def
        timed_def get_def called_def elapse_def len_def record_in_def)
  then have h: "dequeue 1 (pq ?r, wd ?r) = (Return ''A'', fst (snd ?D), snd (snd ?D))"
    by (metis prod.collapse)
  note T = prefetch_queue_fifo [where w = "world0 :: string world" and d = 1 and q = "pq ?r"
      and ?w0.0 = "wd ?r" and x = "''A''" and q' = "fst (snd ?D)" and w' = "snd (snd ?D)"]
  from T h have "items (queue (pq ?r)) = ''A'' # items (queue (fst (snd ?D)))"
    by blast
  moreover have "dequeued (attempts (fresh_run ''sampler'' 7000 32 2 (world0 :: string world))
       [Enqueue ''A'', Enqueue ''B'', Enqueue ''C'', Dequeue 1, Enqueue ''C'', Dequeue 2, Dequeue 1, Dequeue 1])
     = [''A'', ''B'', ''C'']"
    by (simp add: attempts_def attempt_def fresh_run_def PrefetchBatchQueue_init_def
        new_TimeRecorder_def Queue_new_def world0_def enqueue_def put_def qsize_def dequeue_def
        timed_def get_def called_def elapse_def len_def record_in_def)
  moreover have "enqueued (attempts (fresh_run ''sampler'' 7000 32 2 (world0 :: string world))
       [Enqueue ''A'', Enqueue ''B'', Enqueue ''C'', Dequeue 1, Enqueue ''C'', Dequeue 2, Dequeue 1, Dequeue 1])
     = [''A'', ''B'', ''C'']"
    by (simp add: attempts_def attempt_def fresh_run_def PrefetchBatchQueue_init_def
        new_TimeRecorder_def Queue_new_def world0_def enqueue_def put_def qsize_def dequeue_def
        timed_def get_def called_def elapse_def len_def record_in_def)
  ultimately show ?thesis using e by blast
qed

lemma attempt_maxsize: "maxsize (queue (pq (attempt r a))) = maxsize (queue (pq r))"
  by (rule attempt_cases [where r = r and a = a]) simp_all

lemma attempt_bounded:
  assumes "0 < maxsize (queue (pq r))" "len (pq r) \<le> maxsize (queue (pq r))"
  shows "len (pq (attempt r a)) \<le> maxsize (queue (pq r))"
  by (rule attempt_cases [where r = r and a = a]) (use assms in \<open>simp_all add: len_def qsize_def\<close>)

lemma attempts_bounded:
  "0 < maxsize (queue (pq r)) \<Longrightarrow> len (pq r) \<le> maxsize (queue (pq r)) \<Longrightarrow>
   len (pq (attempts r as)) \<le> maxsize (queue (pq r))"
  unfolding attempts_def
proof (induction as arbitrary: r)
  case Nil
  then show ?case by simp
next
  case (Cons a as)
  have "len (pq (foldl attempt (attempt r a) as)) \<le> maxsize (queue (pq (attempt r a)))"
    using Cons.prems by (intro Cons.IH) (simp_all add: attempt_maxsize attempt_bounded)
  then show ?case by (simp add: attempt_maxsize)
qed

text \<open>
  Claim C5. For a queue constructed with capacity \<open>max_size > 0\<close> (the construction
  parameter \<open>max_prefetch_batch_queue\<close>, which the spec requires to be positive), whatever
  the threads attempt and in whatever order, \<open>len\<close> stays between 0 and the capacity.
\<close>

theorem length_within_capacity:
  assumes "0 < max_size"
  shows "0 \<le> len (pq (attempts (fresh_run h p b max_size w) as)) \<and>
         len (pq (attempts (fresh_run h p b max_size w) as)) \<le> max_size"
proof
  show "0 \<le> len (pq (attempts (fresh_run h p b max_size w) as))"
    by (simp add: len_def qsize_def)
  have "len (pq (attempts (fresh_run h p b max_size w) as))
          \<le> maxsize (queue (pq (fresh_run h p b max_size w)))"
    using assms by (intro attempts_bounded) (simp_all add: fresh_run_fields len_def qsize_def)
  then show "len (pq (attempts (fresh_run h p b max_size w) as)) \<le> max_size"
    by (simp add: fresh_run_fields)
qed

theorem length_within_capacity_witness:
  "(0::int) < 2 \<and>
   len (pq (attempts (fresh_run ''sampler'' 7000 32 2 (world0 :: string world))
              [Enqueue ''A'', Enqueue ''B'', Enqueue ''C'', Dequeue 1, Enqueue ''C''])) = 2"
  using length_within_capacity [of 2 "''sampler''" 7000 32 "world0 :: string world"
      "[Enqueue ''A'', Enqueue ''B'', Enqueue ''C'', Dequeue 1, Enqueue ''C'']"]
  by (simp add: attempts_def attempt_def fresh_run_def PrefetchBatchQueue_init_def new_TimeRecorder_def Queue_new_def
     world0_def enqueue_def put_def qsize_def dequeue_def timed_def get_def called_def elapse_def len_def record_in_def)

text \<open>
  The hypothesis is needed: \<open>queue.Queue\<close> takes a \<open>maxsize\<close> of zero as "no bound", and
  \<open>PrefetchBatchQueue\<close> passes \<open>max_size\<close> on unchecked.
\<close>

lemma unbounded_when_maxsize_not_positive:
  "len (pq (attempts (fresh_run ''sampler'' 7000 32 0 (world0 :: string world))
              [Enqueue ''A'', Enqueue ''B'', Enqueue ''C''])) = 3"
  by (simp add: attempts_def attempt_def fresh_run_def PrefetchBatchQueue_init_def
        new_TimeRecorder_def Queue_new_def world0_def enqueue_def put_def qsize_def len_def)

subsection \<open>One turn of the main loop\<close>

lemma bind_Return:
  "bind m f s = (Return y, s') \<longleftrightarrow> (\<exists>a s1. m s = (Return a, s1) \<and> f a s1 = (Return y, s'))"
  by (auto simp: bind_def split: prod.splits outcome.splits)

lemma timed_Return:
  "timed r body s = (Return a, S') \<longleftrightarrow>
     (\<exists>s1 w1. body s = (Return a, s1, w1) \<and>
        S' = (s1, w1\<lparr>timers := record_in r (clock w1 - clock (snd s)) (timers w1)\<rparr>))"
  by (auto simp: timed_def Let_def split: prod.splits outcome.splits)

lemma enqueue_keeps:
  "enqueue x q = Some q' \<Longrightarrow>
     timer q' = timer q \<and> enqueue_thread q' = enqueue_thread q \<and> client q' = client q \<and>
     batch_size q' = batch_size q \<and> maxsize (queue q') = maxsize (queue q)"
  by (simp add: enqueue_Some)

lemma offer_keeps:
  "timer (fst (offer q xs)) = timer q \<and>
   enqueue_thread (fst (offer q xs)) = enqueue_thread q \<and>
   client (fst (offer q xs)) = client q"
proof (induction xs arbitrary: q)
  case Nil
  show ?case by simp
next
  case (Cons x xs)
  show ?case
  proof (cases "enqueue x q")
    case None
    then show ?thesis by simp
  next
    case (Some q')
    then show ?thesis using Cons.IH [of q'] enqueue_keeps [OF Some] by simp
  qed
qed

lemma deliver_fields:
  "timers (snd (deliver xs (L, w))) = timers w"
  "ps_publisher (fst (deliver xs (L, w))) = ps_publisher L"
  "learn_timer (fst (deliver xs (L, w))) = learn_timer L"
  "fetch_timer (fst (deliver xs (L, w))) = fetch_timer L"
  "iter_timer (fst (deliver xs (L, w))) = iter_timer L"
  "concrete (fst (deliver xs (L, w))) = concrete L"
  "timer (prefetch_queue (fst (deliver xs (L, w)))) = timer (prefetch_queue L)"
  "enqueue_thread (prefetch_queue (fst (deliver xs (L, w)))) = enqueue_thread (prefetch_queue L)"
  "client (prefetch_queue (fst (deliver xs (L, w)))) = client (prefetch_queue L)"
  "calls (snd (deliver xs (L, w))) = calls w"
  "clock (snd (deliver xs (L, w))) = clock w"
  "next_ref (snd (deliver xs (L, w))) = next_ref w"
  "prefetch_queue (fst (deliver xs (L, w))) = fst (offer (prefetch_queue L) (waiting w @ xs))"
  using offer_keeps [of "prefetch_queue L" "waiting w @ xs"]
  by (cases "offer (prefetch_queue L) (waiting w @ xs)"; simp add: deliver_def)+

lemma fetch_batch_Return:
  assumes "fetch_batch d (L, w) = (Return x, L', w')"
  shows "ps_publisher L' = ps_publisher L" "learn_timer L' = learn_timer L"
    "fetch_timer L' = fetch_timer L" "iter_timer L' = iter_timer L" "concrete L' = concrete L"
    "timer (prefetch_queue L') = timer (prefetch_queue L)"
    "enqueue_thread (prefetch_queue L') = enqueue_thread (prefetch_queue L)"
    "client (prefetch_queue L') = client (prefetch_queue L)"
    "calls w' = calls w @ [CallGet x]"
    "clock w' = clock w + d"
    "next_ref w' = next_ref w"
    "timers w' = record_in (timer (prefetch_queue L)) d (timers w)"
    "items (queue (prefetch_queue L)) = x # items (queue (prefetch_queue L'))"
proof -
  obtain r q1 w1 where dq: "dequeue d (prefetch_queue L, w) = (r, q1, w1)"
    by (cases "dequeue d (prefetch_queue L, w)") auto
  with assms have eqs: "r = Return x" "L' = L\<lparr>prefetch_queue := q1\<rparr>" "w' = w1"
    by (simp_all add: fetch_batch_def)
  from dq eqs obtain xs where xs: "items (queue (prefetch_queue L)) = x # xs"
    "q1 = (prefetch_queue L)\<lparr>queue := (queue (prefetch_queue L))\<lparr>items := xs\<rparr>\<rparr>"
    "w1 = (called (CallGet x) (elapse d w))
               \<lparr>timers := record_in (timer (prefetch_queue L)) d (timers w)\<rparr>"
    by (auto simp: dequeue_Return)
  show "ps_publisher L' = ps_publisher L" "learn_timer L' = learn_timer L"
    "fetch_timer L' = fetch_timer L" "iter_timer L' = iter_timer L" "concrete L' = concrete L"
    "timer (prefetch_queue L') = timer (prefetch_queue L)"
    "enqueue_thread (prefetch_queue L') = enqueue_thread (prefetch_queue L)"
    "client (prefetch_queue L') = client (prefetch_queue L)"
    "calls w' = calls w @ [CallGet x]"
    "clock w' = clock w + d"
    "next_ref w' = next_ref w"
    "timers w' = record_in (timer (prefetch_queue L)) d (timers w)"
    "items (queue (prefetch_queue L)) = x # items (queue (prefetch_queue L'))"
    using eqs xs by (simp_all add: called_def elapse_def)
qed

lemma loop_body_Return:
  assumes "loop_body learn t i batch (L, w) = (Return u, L', w')"
  shows "ps_publisher L' = ps_publisher L" "ps_publisher L \<noteq> None" "learn_timer L' = learn_timer L"
    "fetch_timer L' = fetch_timer L" "iter_timer L' = iter_timer L"
    "prefetch_queue L' = prefetch_queue L"
    "calls w' = calls w @ [CallLearn batch, CallPublish i (''batch '' @ str i)]"
    "clock w' = clock w + learn_dur t + publish_dur t"
    "next_ref w' = next_ref w"
    "timers w' = record_in (iter_timer L) (learn_dur t + publish_dur t)
                   (record_in (learn_timer L) (learn_dur t) (timers w))"
    "\<exists>r. learn batch (concrete L) = (Return r, concrete L')"
proof -
  from assms obtain L2 w2 where
    body: "bind (\<lambda>s2. timed (learn_timer (fst s2)) (call_learn learn (learn_dur t) batch) s2)
             (\<lambda>_. publish_parameter (publish_dur t) i (''batch '' @ str i)) (L, w) = (Return u, L2, w2)"
    and fin: "L' = L2" "w' = w2\<lparr>timers := record_in (iter_timer L) (clock w2 - clock w) (timers w2)\<rparr>"
    by (auto simp: loop_body_def timed_Return)
  from body obtain a L1 w1 where
    lrn: "timed (learn_timer L) (call_learn learn (learn_dur t) batch) (L, w) = (Return a, L1, w1)"
    and pub: "publish_parameter (publish_dur t) i (''batch '' @ str i) (L1, w1) = (Return u, L2, w2)"
    by (auto simp: bind_Return)
  from lrn obtain w0 where
    cl: "call_learn learn (learn_dur t) batch (L, w) = (Return a, L1, w0)"
    and w1: "w1 = w0\<lparr>timers := record_in (learn_timer L) (clock w0 - clock w) (timers w0)\<rparr>"
    by (auto simp: timed_Return)
  from cl obtain m' where m': "learn batch (concrete L) = (Return a, m')"
    "L1 = L\<lparr>concrete := m'\<rparr>" "w0 = called (CallLearn batch) (elapse (learn_dur t) w)"
    by (auto simp: call_learn_def split: prod.splits)
  from pub obtain p where p: "ps_publisher L1 = Some p" "L2 = L1"
    "w2 = publish (publish_dur t) i (''batch '' @ str i) p w1"
    by (auto simp: publish_parameter_def split: option.splits)
  show "ps_publisher L' = ps_publisher L" "ps_publisher L \<noteq> None" "learn_timer L' = learn_timer L"
    "fetch_timer L' = fetch_timer L" "iter_timer L' = iter_timer L"
    "prefetch_queue L' = prefetch_queue L"
    "calls w' = calls w @ [CallLearn batch, CallPublish i (''batch '' @ str i)]"
    "clock w' = clock w + learn_dur t + publish_dur t"
    "next_ref w' = next_ref w"
    using fin p m' w1 by (simp_all add: publish_def called_def elapse_def)
  show "timers w' = record_in (iter_timer L) (learn_dur t + publish_dur t)
                   (record_in (learn_timer L) (learn_dur t) (timers w))"
    using fin p m' w1 by (simp add: publish_def called_def elapse_def)
  show "\<exists>r. learn batch (concrete L) = (Return r, concrete L')"
    using fin p m' by simp
qed

lemma turn_Return:
  assumes "main_loop_from learn i (t # ts) (L, w) = (Return u, S')"
  obtains b L1 w1 where
    "main_loop_from learn (i + 1) ts (L1, w1) = (Return u, S')"
    "ps_publisher L1 = ps_publisher L" "ps_publisher L \<noteq> None"
    "learn_timer L1 = learn_timer L" "fetch_timer L1 = fetch_timer L" "iter_timer L1 = iter_timer L"
    "timer (prefetch_queue L1) = timer (prefetch_queue L)"
    "enqueue_thread (prefetch_queue L1) = enqueue_thread (prefetch_queue L)"
    "client (prefetch_queue L1) = client (prefetch_queue L)"
    "calls w1 = calls w @ [CallGet b, CallLearn b, CallPublish i (''batch '' @ str i)]"
    "clock w1 = clock w + fetch_dur t + learn_dur t + publish_dur t"
    "next_ref w1 = next_ref w"
    "timers w1 = record_in (iter_timer L) (learn_dur t + publish_dur t)
                   (record_in (learn_timer L) (learn_dur t)
                      (record_in (timer (prefetch_queue L)) (fetch_dur t) (timers w)))"
    "\<exists>r. learn b (concrete L) = (Return r, concrete L1)"
proof -
  obtain Ld wd where dl: "deliver (arrivals t) (L, w) = (Ld, wd)"
    by (cases "deliver (arrivals t) (L, w)") auto
  then have Ld: "timers wd = timers w" "ps_publisher Ld = ps_publisher L" "learn_timer Ld = learn_timer L"
    "fetch_timer Ld = fetch_timer L" "iter_timer Ld = iter_timer L"
    "timer (prefetch_queue Ld) = timer (prefetch_queue L)"
    "enqueue_thread (prefetch_queue Ld) = enqueue_thread (prefetch_queue L)"
    "client (prefetch_queue Ld) = client (prefetch_queue L)"
    "concrete Ld = concrete L"
    "calls wd = calls w" "clock wd = clock w" "next_ref wd = next_ref w"
    using deliver_fields [of "arrivals t" L w] by simp_all
  from assms dl obtain b La wa Lb wb v where
    fb: "fetch_batch (fetch_dur t) (Ld, wd) = (Return b, La, wa)"
    and lb: "loop_body learn t i b (La, wa) = (Return v, Lb, wb)"
    and rest: "main_loop_from learn (i + 1) ts (Lb, wb) = (Return u, S')"
    by (auto simp: bind_Return)
  note A = fetch_batch_Return [OF fb]
  note B = loop_body_Return [OF lb]
  show ?thesis
  proof (rule that [of Lb wb b])
    show "main_loop_from learn (i + 1) ts (Lb, wb) = (Return u, S')" by (rule rest)
    show "ps_publisher Lb = ps_publisher L" using A B Ld by simp
    show "ps_publisher L \<noteq> None" using A B Ld by simp
    show "learn_timer Lb = learn_timer L" using A B Ld by simp
    show "fetch_timer Lb = fetch_timer L" using A B Ld by simp
    show "iter_timer Lb = iter_timer L" using A B Ld by simp
    show "timer (prefetch_queue Lb) = timer (prefetch_queue L)" using A B Ld by simp
    show "enqueue_thread (prefetch_queue Lb) = enqueue_thread (prefetch_queue L)" using A B Ld by simp
    show "client (prefetch_queue Lb) = client (prefetch_queue L)" using A B Ld by simp
    show "calls wb = calls w @ [CallGet b, CallLearn b, CallPublish i (''batch '' @ str i)]"
      using A(9) B(7) Ld(10) by simp
    show "clock wb = clock w + fetch_dur t + learn_dur t + publish_dur t"
      using A(10) B(8) Ld(11) by simp
    show "next_ref wb = next_ref w" using A(11) B(9) Ld(12) by simp
    show "timers wb = record_in (iter_timer L) (learn_dur t + publish_dur t)
                   (record_in (learn_timer L) (learn_dur t)
                      (record_in (timer (prefetch_queue L)) (fetch_dur t) (timers w)))"
      using A(2,4,12) B(10) Ld(1,3,5,6) by simp
    show "\<exists>r. learn b (concrete L) = (Return r, concrete Lb)"
      using A(5) B(11) Ld(9) by simp
  qed
qed

subsection \<open>The calls of the main loop\<close>

text \<open>\<open>str\<close> on a few indices, one of them with several digits.\<close>

lemma str_examples: "str 0 = ''0''" "str 9 = ''9''" "str 10 = ''10''" "str 1205 = ''1205''"
  by (simp_all add: str_def digit_def)

lemma upt_shift: "map f [0..<Suc n] = f 0 # map (\<lambda>k. f (Suc k)) [0..<n]"
proof -
  have "[0..<Suc n] = 0 # map Suc [0..<n]"
    by (simp add: upt_conv_Cons map_Suc_upt del: upt_Suc)
  then show ?thesis by (simp add: o_def del: upt_Suc)
qed

lemma main_loop_from_calls:
  "main_loop_from learn i ts (L, w) = (Return u, L', w') \<Longrightarrow>
   \<exists>bs ms. length bs = length ts \<and> length ms = Suc (length ts) \<and>
     ms ! 0 = concrete L \<and> ms ! length ts = concrete L' \<and>
     (\<forall>k<length ts. \<exists>r. learn (bs ! k) (ms ! k) = (Return r, ms ! Suc k)) \<and>
     calls w' = calls w @ concat (map (\<lambda>k. [CallGet (bs ! k), CallLearn (bs ! k),
                   CallPublish (i + int k) (''batch '' @ str (i + int k))]) [0..<length ts])"
proof (induction ts arbitrary: i L w)
  case Nil
  then have "length [] = length ([] :: 'a turn list) \<and> length [concrete L] = Suc (length ([] :: 'a turn list)) \<and>
     [concrete L] ! 0 = concrete L \<and> [concrete L] ! length ([] :: 'a turn list) = concrete L' \<and>
     calls w' = calls w"
    by simp
  then show ?case by (intro exI [of _ "[]"] exI [of _ "[concrete L]"]) simp
next
  case (Cons t ts)
  from Cons.prems obtain b L1 w1 where
    rest: "main_loop_from learn (i + 1) ts (L1, w1) = (Return u, L', w')"
    and c1: "calls w1 = calls w @ [CallGet b, CallLearn b, CallPublish i (''batch '' @ str i)]"
    and l1: "\<exists>r. learn b (concrete L) = (Return r, concrete L1)"
    by (rule turn_Return)
  from Cons.IH [OF rest] obtain bs ms where
    bs: "length bs = length ts" "length ms = Suc (length ts)"
    "ms ! 0 = concrete L1" "ms ! length ts = concrete L'"
    "\<forall>k<length ts. \<exists>r. learn (bs ! k) (ms ! k) = (Return r, ms ! Suc k)"
    "calls w' = calls w1 @ concat (map (\<lambda>k. [CallGet (bs ! k), CallLearn (bs ! k),
                   CallPublish (i + 1 + int k) (''batch '' @ str (i + 1 + int k))]) [0..<length ts])"
    by blast
  have len: "length (b # bs) = length (t # ts)" "length (concrete L # ms) = Suc (length (t # ts))"
    using bs by simp_all
  have ends: "(concrete L # ms) ! 0 = concrete L" "(concrete L # ms) ! length (t # ts) = concrete L'"
    using bs by simp_all
  have thread: "\<forall>k<length (t # ts). \<exists>r. learn ((b # bs) ! k) ((concrete L # ms) ! k)
                    = (Return r, (concrete L # ms) ! Suc k)"
  proof (intro allI impI)
    fix k assume k: "k < length (t # ts)"
    show "\<exists>r. learn ((b # bs) ! k) ((concrete L # ms) ! k) = (Return r, (concrete L # ms) ! Suc k)"
    proof (cases k)
      case 0
      then show ?thesis using l1 bs(3) by simp
    next
      case (Suc j)
      then have "j < length ts" using k by simp
      then show ?thesis using bs(5) Suc by simp
    qed
  qed
  have cs: "calls w' = calls w @ concat (map (\<lambda>k. [CallGet ((b # bs) ! k), CallLearn ((b # bs) ! k),
                   CallPublish (i + int k) (''batch '' @ str (i + int k))]) [0..<length (t # ts)])"
    using bs(6) c1 by (simp add: upt_shift add.commute add.left_commute del: upt_Suc)
  from len ends thread cs show ?case by blast
qed

lemma publishes_append: "publishes (xs @ ys) = publishes xs @ publishes ys"
  by (induction xs rule: publishes.induct) simp_all

lemma publishes_turns:
  "publishes (concat (map (\<lambda>k. [CallGet (f k), CallLearn (g k), CallPublish (h k) (msg k)]) ks))
     = map (\<lambda>k. (h k, msg k)) ks"
  by (induction ks) simp_all

text \<open>
  Claim C1. When the main loop has completed \<open>N\<close> turns (the \<open>N\<close> turns of \<open>ts\<close>), then,
  turn by turn for \<open>i = 0, ..., N - 1\<close>, it made one \<open>get\<close> on the queue, which returned a
  batch, one call of the caller-supplied \<open>learn\<close> on that batch, and one \<open>publish\<close> with
  iteration \<open>i\<close> and message \<open>"batch i"\<close>, in this order. The calls of \<open>learn\<close> are real:
  \<open>learn\<close> was applied once to each batch in the order the batches were dequeued, every
  application returned, and what the concrete learner holds went from its value before
  the loop (\<open>ms ! 0\<close>) through these applications to its value after the loop
  (\<open>ms ! N\<close>). So \<open>publish\<close> was called exactly \<open>N\<close> times, with the indices
  \<open>0, ..., N - 1\<close> in increasing order.
\<close>

theorem main_loop_publishes:
  assumes "main_loop learn ts (L, w) = (Return (), L', w')"
  shows "(\<exists>bs ms. length bs = length ts \<and> length ms = Suc (length ts) \<and>
            ms ! 0 = concrete L \<and> ms ! length ts = concrete L' \<and>
            (\<forall>k<length ts. \<exists>r. learn (bs ! k) (ms ! k) = (Return r, ms ! Suc k)) \<and>
            calls w' = calls w @ concat (map (\<lambda>k. [CallGet (bs ! k), CallLearn (bs ! k),
                   CallPublish (int k) (''batch '' @ str (int k))]) [0..<length ts]))
         \<and> publishes (calls w') = publishes (calls w) @
               map (\<lambda>k. (int k, ''batch '' @ str (int k))) [0..<length ts]"
proof -
  from assms have "main_loop_from learn 0 ts (L, w) = (Return (), L', w')"
    by (simp add: main_loop_def)
  from main_loop_from_calls [OF this] obtain bs ms where
    bs: "length bs = length ts" "length ms = Suc (length ts)"
    "ms ! 0 = concrete L" "ms ! length ts = concrete L'"
    "\<forall>k<length ts. \<exists>r. learn (bs ! k) (ms ! k) = (Return r, ms ! Suc k)"
    and cs: "calls w' = calls w @ concat (map (\<lambda>k. [CallGet (bs ! k), CallLearn (bs ! k),
                   CallPublish (int k) (''batch '' @ str (int k))]) [0..<length ts])"
    by auto
  have "publishes (calls w') = publishes (calls w) @
               map (\<lambda>k. (int k, ''batch '' @ str (int k))) [0..<length ts]"
    unfolding cs publishes_append publishes_turns ..
  with bs cs show ?thesis by blast
qed

theorem main_loop_publishes_witness:
  "fst (main_loop demo_learn demo_turns demo_logging) = Return ()
   \<and> concrete (fst demo_logging) = []
   \<and> concrete (fst (snd (main_loop demo_learn demo_turns demo_logging))) = [''A'', ''B'']
   \<and> demo_learn ''A'' [] = (Return 1, [''A''])
   \<and> demo_learn ''B'' [''A''] = (Return 1, [''A'', ''B''])
   \<and> calls (snd (snd (main_loop demo_learn demo_turns demo_logging)))
       = calls (snd demo_logging) @
         [CallGet ''A'', CallLearn ''A'', CallPublish 0 ''batch 0'',
          CallGet ''B'', CallLearn ''B'', CallPublish 1 ''batch 1'']
   \<and> publishes (calls (snd (snd (main_loop demo_learn demo_turns demo_logging))))
       = [(0, ''batch 0''), (1, ''batch 1'')]"
proof -
  let ?X = "main_loop demo_learn demo_turns demo_logging"
  have r: "fst ?X = Return ()" by (simp add: demo_logging_def demo_learn_def eval_defs)
  have h: "main_loop demo_learn demo_turns (fst demo_logging, snd demo_logging)
             = (Return (), fst (snd ?X), snd (snd ?X))"
    using r by (metis prod.collapse)
  have c0: "calls (snd demo_logging) = [CallModuleDict, CallClientStart]"
    by (simp add: demo_logging_def eval_defs)
  have m0: "concrete (fst demo_logging) = []"
    by (simp add: demo_logging_def eval_defs)
  have m2: "concrete (fst (snd ?X)) = [''A'', ''B'']"
    by (simp add: demo_logging_def demo_learn_def eval_defs)
  have c: "calls (snd (snd ?X)) = calls (snd demo_logging) @
         [CallGet ''A'', CallLearn ''A'', CallPublish 0 ''batch 0'',
          CallGet ''B'', CallLearn ''B'', CallPublish 1 ''batch 1'']"
    by (simp add: demo_logging_def demo_learn_def eval_defs)
  have l: "[0..<length demo_turns] = [0, 1]" by (simp add: demo_turns_def upt_conv_Cons)
  from main_loop_publishes [OF h]
  have "publishes (calls (snd (snd ?X))) = publishes (calls (snd demo_logging)) @
               map (\<lambda>k. (int k, ''batch '' @ str (int k))) [0..<length demo_turns]"
    by blast
  then have "publishes (calls (snd (snd ?X))) = [(0, ''batch 0''), (1, ''batch 1'')]"
    unfolding l c0 by (simp add: str_def digit_def)
  moreover have "demo_learn ''A'' [] = (Return 1, [''A''])"
    "demo_learn ''B'' [''A''] = (Return 1, [''A'', ''B''])"
    by (simp_all add: demo_learn_def)
  ultimately show ?thesis using r c m0 m2 by blast
qed

text \<open>
  The hypothesis of the claim can be met for every number of turns: with a publisher
  bound, a \<open>learn\<close> that always returns, and at least one arrival before each \<open>get\<close>,
  the loop completes all the turns it is given.
\<close>

lemma offer_nonempty:
  "xs \<noteq> [] \<or> items (queue q) \<noteq> [] \<Longrightarrow> items (queue (fst (offer q xs))) \<noteq> []"
proof (induction xs arbitrary: q)
  case Nil
  then show ?case by simp
next
  case (Cons x xs)
  show ?case
  proof (cases "enqueue x q")
    case None
    then have "items (queue q) \<noteq> []"
      by (auto simp: enqueue_def put_def qsize_def split: if_splits)
    with None show ?thesis by simp
  next
    case (Some q')
    then have "items (queue q') \<noteq> []" by (simp add: enqueue_Some)
    with Some show ?thesis using Cons.IH [of q'] by simp
  qed
qed

lemma fetch_batch_returns:
  assumes "items (queue (prefetch_queue L)) \<noteq> []"
  shows "\<exists>b L' w'. fetch_batch d (L, w) = (Return b, L', w') "
proof -
  from assms obtain x xs where "items (queue (prefetch_queue L)) = x # xs"
    by (cases "items (queue (prefetch_queue L))") auto
  then show ?thesis
    by (simp add: fetch_batch_def dequeue_def timed_def get_def)
qed

lemma loop_body_returns:
  assumes "ps_publisher L = Some p" "learn batch (concrete L) = (Return r, m')"
  shows "\<exists>L' w'. loop_body learn t i batch (L, w) = (Return (), L', w')"
  using assms
  by (simp add: loop_body_def timed_def bind_def call_learn_def publish_parameter_def)

lemma main_loop_from_returns:
  assumes "ps_publisher L \<noteq> None" "\<And>b m. \<exists>r m'. learn b m = (Return r, m')"
    "\<And>t. t \<in> set ts \<Longrightarrow> arrivals t \<noteq> []"
  shows "fst (main_loop_from learn i ts (L, w)) = Return ()"
  using assms(1,3)
proof (induction ts arbitrary: i L w)
  case Nil
  then show ?case by simp
next
  case (Cons t ts)
  obtain Ld wd where Ld: "deliver (arrivals t) (L, w) = (Ld, wd)"
    by (cases "deliver (arrivals t) (L, w)") auto
  have "arrivals t \<noteq> []" using Cons.prems(2) by simp
  then have "items (queue (prefetch_queue Ld)) \<noteq> []"
    using Ld deliver_fields(13) [of "arrivals t" L w]
      offer_nonempty [of "waiting w @ arrivals t" "prefetch_queue L"]
    by simp
  from fetch_batch_returns [OF this] obtain b La wa where
    fb: "fetch_batch (fetch_dur t) (Ld, wd) = (Return b, La, wa)" by blast
  have pa: "ps_publisher La \<noteq> None"
    using fetch_batch_Return(1) [OF fb] deliver_fields(2) [of "arrivals t" L w] Ld Cons.prems(1)
    by simp
  then obtain p where p: "ps_publisher La = Some p" by auto
  obtain r m' where lr: "learn b (concrete La) = (Return r, m')"
    using assms(2) by blast
  from loop_body_returns [where learn = learn and batch = b and L = La, OF p lr]
  obtain Lb wb where lb: "loop_body learn t i b (La, wa) = (Return (), Lb, wb)" by blast
  have "ps_publisher Lb \<noteq> None" using loop_body_Return(1) [OF lb] pa by simp
  then have "fst (main_loop_from learn (i + 1) ts (Lb, wb)) = Return ()"
    using Cons.prems(2) by (intro Cons.IH) simp_all
  then show ?case using Ld fb lb by (simp add: bind_def)
qed

text \<open>
  A producer that found the queue full enters once a \<open>get\<close> has made room: with capacity
  2 and the arrivals \<open>A\<close>, \<open>B\<close>, \<open>C\<close> before the first \<open>get\<close>, \<open>C\<close> waits during the first
  turn, and three turns learn from \<open>A\<close>, \<open>B\<close>, \<open>C\<close> without any further arrival.
\<close>

lemma waiting_producer_enters:
  "fst (main_loop demo_learn
          [\<lparr>arrivals = [''A'', ''B'', ''C''], fetch_dur = 1, learn_dur = 1, publish_dur = 1\<rparr>,
           \<lparr>arrivals = [], fetch_dur = 1, learn_dur = 1, publish_dur = 1\<rparr>,
           \<lparr>arrivals = [], fetch_dur = 1, learn_dur = 1, publish_dur = 1\<rparr>] demo_logging) = Return ()
   \<and> concrete (fst (snd (main_loop demo_learn
          [\<lparr>arrivals = [''A'', ''B'', ''C''], fetch_dur = 1, learn_dur = 1, publish_dur = 1\<rparr>,
           \<lparr>arrivals = [], fetch_dur = 1, learn_dur = 1, publish_dur = 1\<rparr>,
           \<lparr>arrivals = [], fetch_dur = 1, learn_dur = 1, publish_dur = 1\<rparr>] demo_logging)))
       = [''A'', ''B'', ''C'']
   \<and> waiting (snd (deliver [''A'', ''B'', ''C''] demo_logging)) = [''C'']"
  by (simp add: demo_logging_def demo_learn_def eval_defs)

subsection \<open>The value \<open>learn\<close> returns\<close>

lemma loop_body_forgets:
  "loop_body learn t i batch s
     = loop_body (\<lambda>b m. (map_outcome (\<lambda>_. ()) (fst (learn b m)), snd (learn b m))) t i batch s"
proof -
  obtain L w where s: "s = (L, w)" by (cases s) auto
  obtain r m' where l: "learn batch (concrete L) = (r, m')"
    by (cases "learn batch (concrete L)") auto
  show ?thesis
    by (cases r) (simp_all add: s l loop_body_def timed_def bind_def call_learn_def)
qed

text \<open>
  Claim C8, as amended. The core does not interpret the value \<open>learn(batch)\<close> returns, and
  it does not keep it either: \<open>main_loop\<close> calls \<open>self.learn(batch)\<close> as a statement, so the
  run of the loop, its result and the state it leaves are the same as with a \<open>learn\<close> that
  has the same effects and returns nothing.
\<close>

theorem learn_result_discarded:
  "main_loop learn ts s
     = main_loop (\<lambda>b m. (map_outcome (\<lambda>_. ()) (fst (learn b m)), snd (learn b m))) ts s"
proof -
  have "main_loop_from learn i ts s
     = main_loop_from (\<lambda>b m. (map_outcome (\<lambda>_. ()) (fst (learn b m)), snd (learn b m))) i ts s"
    for i
  proof (induction ts arbitrary: i s)
    case Nil
    show ?case by simp
  next
    case (Cons t ts)
    show ?case
      unfolding main_loop_from.simps loop_body_forgets [of learn] Cons.IH ..
  qed
  then show ?thesis by (simp add: main_loop_def)
qed

theorem learn_result_discarded_witness:
  "main_loop (\<lambda>b m. (Return (length b), m)) demo_turns demo_state
     = main_loop (\<lambda>b m. (Return (), m)) demo_turns demo_state"
  using learn_result_discarded [of "\<lambda>b m. (Return (length b), m)" demo_turns demo_state]
  by simp

text \<open>
  The claim as stated, that the value is passed on rather than discarded, fails: two
  learners that differ only in the value \<open>learn\<close> returns leave the very same result and
  state behind.
\<close>

theorem learn_result_not_passed_on:
  "(1::int) \<noteq> 2 \<and>
   fst (main_loop (\<lambda>b m. (Return (1::int), m)) demo_turns demo_state) = Return () \<and>
   main_loop (\<lambda>b m. (Return (1::int), m)) demo_turns demo_state
     = main_loop (\<lambda>b m. (Return (2::int), m)) demo_turns demo_state"
  by (simp add: eval_defs)

subsection \<open>Construction and initialisation\<close>

lemma init_fields:
  assumes "LearnerCore_init sh sp pp bsz mx m w0 = (L, w)"
  shows "fetch_timer L = timer (prefetch_queue L)" "fetch_timer L = next_ref w0"
    "learn_timer L = Suc (next_ref w0)" "iter_timer L = Suc (Suc (next_ref w0))"
    "ps_publisher L = None" "enqueue_thread (prefetch_queue L) = False"
    "starts (client (prefetch_queue L)) = 0" "items (queue (prefetch_queue L)) = []"
    "maxsize (queue (prefetch_queue L)) = mx"
    "timers w (fetch_timer L) = TimeRecorder_new" "timers w (learn_timer L) = TimeRecorder_new"
    "timers w (iter_timer L) = TimeRecorder_new"
    "calls w = calls w0" "clock w = clock w0"
  using assms
  by (auto simp: LearnerCore_init_def PrefetchBatchQueue_init_def new_TimeRecorder_def
      Queue_new_def Let_def)

lemma initialize_Return:
  assumes "initialize module_dict (L, w) = (Return u, L1, w1)"
  shows "\<exists>md. module_dict (concrete L) = Return md \<and>
           ps_publisher L1 = Some \<lparr>pub_id = next_ref w, pub_port = ps_port L, pub_module_dict = md\<rparr>"
    "enqueue_thread (prefetch_queue L1)" "\<not> enqueue_thread (prefetch_queue L)"
    "starts (client (prefetch_queue L1)) = Suc (starts (client (prefetch_queue L)))"
    "concrete L1 = concrete L" "next_ref w1 = Suc (next_ref w)"
    "fetch_timer L1 = fetch_timer L" "learn_timer L1 = learn_timer L" "iter_timer L1 = iter_timer L"
    "timer (prefetch_queue L1) = timer (prefetch_queue L)"
    "timers w1 = timers w" "clock w1 = clock w"
    "calls w1 = calls w @ [CallModuleDict, CallClientStart]"
    "queue (prefetch_queue L1) = queue (prefetch_queue L)"
  using assms
  by (auto simp: initialize_def start_enqueue_thread_def called_def Let_def
      split: outcome.splits if_splits)

lemma initialize_again:
  assumes "enqueue_thread (prefetch_queue L)" "module_dict (concrete L) = Return md"
  shows "initialize module_dict (L, w) =
           (Raise (RuntimeError ''Enqueue thread is already running''),
            L\<lparr>ps_publisher := Some \<lparr>pub_id = next_ref w, pub_port = ps_port L, pub_module_dict = md\<rparr>\<rparr>,
            (called CallModuleDict w)\<lparr>next_ref := Suc (next_ref w)\<rparr>)"
  using assms by (simp add: initialize_def start_enqueue_thread_def called_def Let_def)

text \<open>
  Claim C3. After a call of \<open>_initialize\<close> that returned, a second call raises
  \<open>RuntimeError('Enqueue thread is already running')\<close>, and it does not start the fetch
  client again: the client has been started once, by the first call, and the only call the
  second one makes is \<open>module_dict()\<close>.
\<close>

theorem initialize_twice_fails:
  assumes "initialize module_dict (L, w) = (Return (), L1, w1)"
  shows "fst (initialize module_dict (L1, w1)) = Raise (RuntimeError ''Enqueue thread is already running'')
       \<and> starts (client (prefetch_queue (fst (snd (initialize module_dict (L1, w1))))))
             = starts (client (prefetch_queue L1))
       \<and> starts (client (prefetch_queue L1)) = Suc (starts (client (prefetch_queue L)))
       \<and> calls (snd (snd (initialize module_dict (L1, w1)))) = calls w1 @ [CallModuleDict]"
proof -
  from initialize_Return(1,5) [OF assms] obtain md where
    "module_dict (concrete L1) = Return md" by auto
  from initialize_again [where module_dict = module_dict and L = L1 and w = w1,
      OF initialize_Return(2) [OF assms] this]
  show ?thesis using initialize_Return(4) [OF assms] by (simp add: called_def)
qed

theorem initialize_twice_fails_witness:
  "fst (initialize (\<lambda>_. Return ()) demo_fresh) = Return ()
   \<and> fst (initialize (\<lambda>_. Return ()) demo_state)
        = Raise (RuntimeError ''Enqueue thread is already running'')
   \<and> starts (client (prefetch_queue (fst (snd (initialize (\<lambda>_. Return ()) demo_state))))) = 1"
proof -
  have r: "fst (initialize (\<lambda>_. Return ()) demo_fresh) = Return ()"
    by (simp add: demo_fresh_def eval_defs)
  have d: "demo_state = snd (initialize (\<lambda>_. Return ()) demo_fresh)"
    by (simp add: demo_state_def demo_fresh_def)
  have h: "initialize (\<lambda>_. Return ()) (fst demo_fresh, snd demo_fresh)
             = (Return (), fst demo_state, snd demo_state)"
    using r unfolding d by (metis prod.collapse)
  have s: "starts (client (prefetch_queue (fst demo_state))) = 1"
    by (simp add: eval_defs)
  from initialize_twice_fails [OF h] r s show ?thesis by simp
qed

text \<open>
  Claim C9. The second call of \<open>_initialize\<close> does not leave the learner as it found it:
  when it raises, \<open>self._ps_publisher\<close> is already a new publisher object, made from a
  fresh \<open>module_dict()\<close> call, in place of the one the first call installed.
\<close>

theorem second_initialize_rebinds_publisher:
  assumes "initialize module_dict (L, w) = (Return (), L1, w1)"
  shows "\<exists>p1 p2. ps_publisher L1 = Some p1
       \<and> fst (initialize module_dict (L1, w1)) = Raise (RuntimeError ''Enqueue thread is already running'')
       \<and> ps_publisher (fst (snd (initialize module_dict (L1, w1)))) = Some p2
       \<and> pub_id p2 \<noteq> pub_id p1
       \<and> module_dict (concrete L1) = Return (pub_module_dict p2)
       \<and> calls (snd (snd (initialize module_dict (L1, w1)))) = calls w1 @ [CallModuleDict]
       \<and> fst (snd (initialize module_dict (L1, w1))) \<noteq> L1"
proof -
  from initialize_Return(1,5) [OF assms] obtain md where
    md: "module_dict (concrete L1) = Return md"
    and p1: "ps_publisher L1 = Some \<lparr>pub_id = next_ref w, pub_port = ps_port L, pub_module_dict = md\<rparr>"
    by auto
  note again = initialize_again [where module_dict = module_dict and L = L1 and w = w1,
      OF initialize_Return(2) [OF assms] md]
  have nr: "next_ref w1 = Suc (next_ref w)" by (rule initialize_Return(6) [OF assms])
  let ?p2 = "\<lparr>pub_id = next_ref w1, pub_port = ps_port L1, pub_module_dict = md\<rparr>"
  have "ps_publisher (fst (snd (initialize module_dict (L1, w1)))) = Some ?p2"
    by (simp add: again)
  moreover have "pub_id ?p2 \<noteq> pub_id \<lparr>pub_id = next_ref w, pub_port = ps_port L, pub_module_dict = md\<rparr>"
    using nr by simp
  moreover have "fst (snd (initialize module_dict (L1, w1))) \<noteq> L1"
  proof
    assume "fst (snd (initialize module_dict (L1, w1))) = L1"
    then have "ps_publisher (fst (snd (initialize module_dict (L1, w1)))) = ps_publisher L1" by simp
    then show False using p1 nr by (simp add: again)
  qed
  ultimately show ?thesis using p1 md again by (auto simp: called_def)
qed

theorem second_initialize_rebinds_publisher_witness:
  "fst (initialize (\<lambda>_. Return ()) demo_fresh) = Return ()
   \<and> ps_publisher (fst demo_state) = Some \<lparr>pub_id = 3, pub_port = 7001, pub_module_dict = ()\<rparr>
   \<and> ps_publisher (fst (snd (initialize (\<lambda>_. Return ()) demo_state)))
        = Some \<lparr>pub_id = 4, pub_port = 7001, pub_module_dict = ()\<rparr>"
proof -
  have r: "fst (initialize (\<lambda>_. Return ()) demo_fresh) = Return ()"
    by (simp add: demo_fresh_def eval_defs)
  have d: "demo_state = snd (initialize (\<lambda>_. Return ()) demo_fresh)"
    by (simp add: demo_state_def demo_fresh_def)
  have h: "initialize (\<lambda>_. Return ()) (fst demo_fresh, snd demo_fresh)
             = (Return (), fst demo_state, snd demo_state)"
    using r unfolding d by (metis prod.collapse)
  have p1: "ps_publisher (fst demo_state) = Some \<lparr>pub_id = 3, pub_port = 7001, pub_module_dict = ()\<rparr>"
    by (simp add: eval_defs)
  have p2: "ps_publisher (fst (snd (initialize (\<lambda>_. Return ()) demo_state)))
        = Some \<lparr>pub_id = 4, pub_port = 7001, pub_module_dict = ()\<rparr>"
    by (simp add: eval_defs)
  from second_initialize_rebinds_publisher [OF h] r p1 p2 show ?thesis by simp
qed

subsection \<open>The timers\<close>

lemma main_loop_from_timers:
  assumes "main_loop_from learn i ts (L, w) = (Return u, L', w')"
    and "fetch_timer L = timer (prefetch_queue L)"
    and "fetch_timer L \<noteq> learn_timer L" "fetch_timer L \<noteq> iter_timer L"
      "learn_timer L \<noteq> iter_timer L"
  shows "fetch_timer L' = fetch_timer L \<and> learn_timer L' = learn_timer L \<and>
         iter_timer L' = iter_timer L \<and> timer (prefetch_queue L') = timer (prefetch_queue L) \<and>
         ps_publisher L' = ps_publisher L \<and>
         client (prefetch_queue L') = client (prefetch_queue L) \<and>
         clock w' = clock w + (\<Sum>t\<leftarrow>ts. fetch_dur t + learn_dur t + publish_dur t) \<and>
         tr_count (timers w' (fetch_timer L)) = tr_count (timers w (fetch_timer L)) + length ts \<and>
         tr_total (timers w' (fetch_timer L)) =
           tr_total (timers w (fetch_timer L)) + (\<Sum>t\<leftarrow>ts. fetch_dur t) \<and>
         tr_count (timers w' (learn_timer L)) = tr_count (timers w (learn_timer L)) + length ts \<and>
         tr_total (timers w' (learn_timer L)) =
           tr_total (timers w (learn_timer L)) + (\<Sum>t\<leftarrow>ts. learn_dur t) \<and>
         tr_count (timers w' (iter_timer L)) = tr_count (timers w (iter_timer L)) + length ts \<and>
         tr_total (timers w' (iter_timer L)) =
           tr_total (timers w (iter_timer L)) + (\<Sum>t\<leftarrow>ts. learn_dur t + publish_dur t)"
  using assms
proof (induction ts arbitrary: i L w)
  case Nil
  then show ?case by simp
next
  case (Cons t ts)
  from Cons.prems(1) obtain b L1 w1 where
    rest: "main_loop_from learn (i + 1) ts (L1, w1) = (Return u, L', w')"
    and keep: "ps_publisher L1 = ps_publisher L"
      "learn_timer L1 = learn_timer L" "fetch_timer L1 = fetch_timer L" "iter_timer L1 = iter_timer L"
      "timer (prefetch_queue L1) = timer (prefetch_queue L)"
      "client (prefetch_queue L1) = client (prefetch_queue L)"
    and clk: "clock w1 = clock w + fetch_dur t + learn_dur t + publish_dur t"
    and tm: "timers w1 = record_in (iter_timer L) (learn_dur t + publish_dur t)
                   (record_in (learn_timer L) (learn_dur t)
                      (record_in (timer (prefetch_queue L)) (fetch_dur t) (timers w)))"
    by (rule turn_Return)
  have IH: "fetch_timer L' = fetch_timer L1 \<and> learn_timer L' = learn_timer L1 \<and>
         iter_timer L' = iter_timer L1 \<and> timer (prefetch_queue L') = timer (prefetch_queue L1) \<and>
         ps_publisher L' = ps_publisher L1 \<and>
         client (prefetch_queue L') = client (prefetch_queue L1) \<and>
         clock w' = clock w1 + (\<Sum>t\<leftarrow>ts. fetch_dur t + learn_dur t + publish_dur t) \<and>
         tr_count (timers w' (fetch_timer L1)) = tr_count (timers w1 (fetch_timer L1)) + length ts \<and>
         tr_total (timers w' (fetch_timer L1)) =
           tr_total (timers w1 (fetch_timer L1)) + (\<Sum>t\<leftarrow>ts. fetch_dur t) \<and>
         tr_count (timers w' (learn_timer L1)) = tr_count (timers w1 (learn_timer L1)) + length ts \<and>
         tr_total (timers w' (learn_timer L1)) =
           tr_total (timers w1 (learn_timer L1)) + (\<Sum>t\<leftarrow>ts. learn_dur t) \<and>
         tr_count (timers w' (iter_timer L1)) = tr_count (timers w1 (iter_timer L1)) + length ts \<and>
         tr_total (timers w' (iter_timer L1)) =
           tr_total (timers w1 (iter_timer L1)) + (\<Sum>t\<leftarrow>ts. learn_dur t + publish_dur t)"
    using Cons.prems(2-) keep by (intro Cons.IH [OF rest]) simp_all
  have T: "timers w1 (fetch_timer L) = record_interval (fetch_dur t) (timers w (fetch_timer L))"
    "timers w1 (learn_timer L) = record_interval (learn_dur t) (timers w (learn_timer L))"
    "timers w1 (iter_timer L) = record_interval (learn_dur t + publish_dur t) (timers w (iter_timer L))"
    using Cons.prems(2-) by (simp_all add: tm record_in_def)
  show ?case
    using IH keep clk T by (simp add: record_interval_def)
qed

text \<open>
  Claim C7. The learner's \<open>fetch_timer\<close> is the queue's own \<open>timer\<close> (one recorder, two
  references), from construction on. Every \<open>dequeue\<close> that returns records in it exactly
  the wall-clock time that passed inside the call; \<open>_enqueue\<close>, the producers' side, has no
  access to any recorder. So after \<open>N\<close> turns of the main loop \<open>fetch_timer\<close> holds \<open>N\<close>
  recordings, whose total is the time the training thread spent in \<open>get\<close>.
\<close>

theorem fetch_timer_records_dequeue:
  assumes "LearnerCore_init sh sp pp bsz mx m w0 = (L0, w1)"
    and "initialize module_dict (L0, w1) = (Return (), L1, w2)"
    and "main_loop learn ts (L1, w2) = (Return (), L', w')"
  shows "fetch_timer L0 = timer (prefetch_queue L0)
       \<and> fetch_timer L' = timer (prefetch_queue L') 
       \<and> fetch_timer L' \<noteq> learn_timer L' \<and> fetch_timer L' \<noteq> iter_timer L'
       \<and> tr_count (timers w' (fetch_timer L')) = length ts
       \<and> tr_total (timers w' (fetch_timer L')) = (\<Sum>t\<leftarrow>ts. fetch_dur t)
       \<and> (\<forall>d q w x q' w''. dequeue d (q, w) = (Return x, q', w'') \<longrightarrow>
             clock w'' - clock w = d \<and> timers w'' = record_in (timer q) (clock w'' - clock w) (timers w))"
proof -
  note I = init_fields [OF assms(1)]
  note J = initialize_Return [OF assms(2)]
  have run: "main_loop_from learn 0 ts (L1, w2) = (Return (), L', w')"
    using assms(3) by (simp add: main_loop_def)
  have wired: "fetch_timer L1 = timer (prefetch_queue L1)" "fetch_timer L1 \<noteq> learn_timer L1"
    "fetch_timer L1 \<noteq> iter_timer L1" "learn_timer L1 \<noteq> iter_timer L1"
    using I J by simp_all
  note M = main_loop_from_timers [OF run wired]
  have z: "timers w2 (fetch_timer L1) = TimeRecorder_new" using I J by simp
  have "\<forall>d q w x q' w''. dequeue d (q, w) = (Return x, q', w'') \<longrightarrow>
             clock w'' - clock w = d \<and> timers w'' = record_in (timer q) (clock w'' - clock w) (timers w)"
    by (auto simp: dequeue_Return called_def elapse_def)
  moreover have "fetch_timer L0 = timer (prefetch_queue L0)" by (rule I)
  moreover have "fetch_timer L' = timer (prefetch_queue L')" using M wired by simp
  moreover have "fetch_timer L' \<noteq> learn_timer L'" "fetch_timer L' \<noteq> iter_timer L'"
    using M wired by simp_all
  moreover have "tr_count (timers w' (fetch_timer L')) = length ts"
    "tr_total (timers w' (fetch_timer L')) = (\<Sum>t\<leftarrow>ts. fetch_dur t)"
    using M z by (simp_all add: TimeRecorder_new_def)
  ultimately show ?thesis by blast
qed

theorem fetch_timer_records_dequeue_witness:
  "fst (initialize (\<lambda>_. Return ()) demo_fresh) = Return ()
   \<and> fst (main_loop (\<lambda>b m. (Return (), m)) demo_turns demo_state) = Return ()
   \<and> fetch_timer (fst demo_fresh) = timer (prefetch_queue (fst demo_fresh))
   \<and> timers (snd (snd (main_loop (\<lambda>b m. (Return (), m)) demo_turns demo_state)))
        (timer (prefetch_queue (fst (snd (main_loop (\<lambda>b m. (Return (), m)) demo_turns demo_state)))))
       = \<lparr>tr_count = 2, tr_total = 5\<rparr>"
proof -
  let ?X = "main_loop (\<lambda>b m. (Return (), m)) demo_turns demo_state"
  have r: "fst (initialize (\<lambda>_. Return ()) demo_fresh) = Return ()"
    by (simp add: demo_fresh_def eval_defs)
  have d: "demo_state = snd (initialize (\<lambda>_. Return ()) demo_fresh)"
    by (simp add: demo_state_def demo_fresh_def)
  have h0: "LearnerCore_init ''sampler'' 7000 7001 32 2 () (world0 :: string world)
              = (fst demo_fresh, snd demo_fresh)"
    by (simp add: demo_fresh_def)
  have h1: "initialize (\<lambda>_. Return ()) (fst demo_fresh, snd demo_fresh)
             = (Return (), fst demo_state, snd demo_state)"
    using r unfolding d by (metis prod.collapse)
  have x: "fst ?X = Return ()" by (simp add: eval_defs)
  have h2: "main_loop (\<lambda>b m. (Return (), m)) demo_turns (fst demo_state, snd demo_state)
             = (Return (), fst (snd ?X), snd (snd ?X))"
    using x by (metis prod.collapse)
  have s: "(\<Sum>t\<leftarrow>demo_turns. fetch_dur t) = 5" "length demo_turns = 2"
    by (simp_all add: demo_turns_def)
  from fetch_timer_records_dequeue [OF h0 h1 h2]
  have "fetch_timer (fst demo_fresh) = timer (prefetch_queue (fst demo_fresh))"
    "fetch_timer (fst (snd ?X)) = timer (prefetch_queue (fst (snd ?X)))"
    "tr_count (timers (snd (snd ?X)) (fetch_timer (fst (snd ?X)))) = 2"
    "tr_total (timers (snd (snd ?X)) (fetch_timer (fst (snd ?X)))) = 5"
    unfolding s by blast+
  then show ?thesis using r x by (simp add: TimeRecorder.equality)
qed

text \<open>
  What \<open>iter_timer\<close> holds after \<open>N\<close> turns: \<open>N\<close> recordings, whose total is the time spent
  in \<open>learn\<close> and \<open>publish\<close>. The time of the turns themselves is longer by the time spent
  in \<open>get\<close>, because the generator is advanced before the body of the \<open>for\<close> is entered.
\<close>

lemma iter_timer_records_learn_and_publish:
  assumes "LearnerCore_init sh sp pp bsz mx m w0 = (L0, w1)"
    and "initialize module_dict (L0, w1) = (Return (), L1, w2)"
    and "main_loop learn ts (L1, w2) = (Return (), L', w')"
  shows "tr_count (timers w' (iter_timer L')) = length ts"
    "tr_total (timers w' (iter_timer L')) = (\<Sum>t\<leftarrow>ts. learn_dur t + publish_dur t)"
    "clock w' - clock w2 = (\<Sum>t\<leftarrow>ts. fetch_dur t + learn_dur t + publish_dur t)"
proof -
  note I = init_fields [OF assms(1)]
  note J = initialize_Return [OF assms(2)]
  have run: "main_loop_from learn 0 ts (L1, w2) = (Return (), L', w')"
    using assms(3) by (simp add: main_loop_def)
  have wired: "fetch_timer L1 = timer (prefetch_queue L1)" "fetch_timer L1 \<noteq> learn_timer L1"
    "fetch_timer L1 \<noteq> iter_timer L1" "learn_timer L1 \<noteq> iter_timer L1"
    using I J by simp_all
  note M = main_loop_from_timers [OF run wired]
  have z: "timers w2 (iter_timer L1) = TimeRecorder_new" using I J by simp
  show "tr_count (timers w' (iter_timer L')) = length ts"
    "tr_total (timers w' (iter_timer L')) = (\<Sum>t\<leftarrow>ts. learn_dur t + publish_dur t)"
    using M z by (simp_all add: TimeRecorder_new_def)
  show "clock w' - clock w2 = (\<Sum>t\<leftarrow>ts. fetch_dur t + learn_dur t + publish_dur t)"
    using M by simp
qed

text \<open>
  Claim C2 says that the duration recorded under \<open>iter_timer\<close> is that of the full cycle
  dequeue, learn, publish. On the code it is not: for one turn whose \<open>get\<close> takes 5 time
  units, whose \<open>learn\<close> takes 2 and whose \<open>publish\<close> takes 1, the turn takes 8 units, and
  \<open>iter_timer\<close> records 3; the 5 units are recorded under \<open>fetch_timer\<close> only.
\<close>

theorem iteration_timer_excludes_dequeue:
  "fst (main_loop (\<lambda>b m. (Return (), m))
          [\<lparr>arrivals = [''A''], fetch_dur = 5, learn_dur = 2, publish_dur = 1\<rparr>] demo_state) = Return ()
   \<and> clock (snd (snd (main_loop (\<lambda>b m. (Return (), m))
          [\<lparr>arrivals = [''A''], fetch_dur = 5, learn_dur = 2, publish_dur = 1\<rparr>] demo_state)))
       - clock (snd demo_state) = 8
   \<and> timers (snd (snd (main_loop (\<lambda>b m. (Return (), m))
          [\<lparr>arrivals = [''A''], fetch_dur = 5, learn_dur = 2, publish_dur = 1\<rparr>] demo_state)))
        (iter_timer (fst demo_state)) = \<lparr>tr_count = 1, tr_total = 3\<rparr>
   \<and> timers (snd (snd (main_loop (\<lambda>b m. (Return (), m))
          [\<lparr>arrivals = [''A''], fetch_dur = 5, learn_dur = 2, publish_dur = 1\<rparr>] demo_state)))
        (fetch_timer (fst demo_state)) = \<lparr>tr_count = 1, tr_total = 5\<rparr>"
  by (simp add: eval_defs)

subsection \<open>The statistics\<close>

lemma update_tensorplex_values:
  "fst (update_tensorplex tvd gs (L, w)) ''speed/compute_bound_percent''
     = Some (min ((avg (timers w (learn_timer L)) + 1 / 1000000)
                   / (avg (timers w (iter_timer L)) + 1 / 1000000) * 100) 100)"
  "fst (update_tensorplex tvd gs (L, w)) ''speed/io_bound_percent''
     = Some (min ((avg (timers w (fetch_timer L)) + 1 / 1000000)
                   / (avg (timers w (iter_timer L)) + 1 / 1000000) * 100) 100)"
  by (simp_all add: update_tensorplex_def Let_def)

lemma percent_range:
  fixes a b :: real
  assumes "0 \<le> a" "0 \<le> b"
  shows "0 \<le> min ((a + 1 / 1000000) / (b + 1 / 1000000) * 100) 100"
    "min ((a + 1 / 1000000) / (b + 1 / 1000000) * 100) 100 \<le> 100"
  using assms by simp_all

lemma demo_timed_avgs:
  "avg (timers (snd demo_timed) (learn_timer (fst demo_timed))) = 5 / 2"
  "avg (timers (snd demo_timed) (fetch_timer (fst demo_timed))) = 5 / 2"
  "avg (timers (snd demo_timed) (iter_timer (fst demo_timed))) = 7 / 2"
  by (simp_all add: demo_timed_def avg_def eval_defs)

text \<open>
  Claim C6. For running averages that are not negative, \<open>update_tensorplex\<close> stores
  \<open>min((learn_avg + e) / (iter_avg + e) * 100, 100)\<close> under \<open>speed/compute_bound_percent\<close> and
  \<open>min((fetch_avg + e) / (iter_avg + e) * 100, 100)\<close> under \<open>speed/io_bound_percent\<close>, with
  \<open>e = 1e-6\<close>; the denominator is not zero; both values lie between 0 and 100; and there
  are states in which they do not add up to 100.
\<close>

theorem bound_percent_clamped:
  assumes "0 \<le> avg (timers w (learn_timer L))" "0 \<le> avg (timers w (fetch_timer L))"
    "0 \<le> avg (timers w (iter_timer L))"
  shows "avg (timers w (iter_timer L)) + 1 / 1000000 \<noteq> 0
    \<and> fst (update_tensorplex tvd gs (L, w)) ''speed/compute_bound_percent''
        = Some (min ((avg (timers w (learn_timer L)) + 1 / 1000000)
                       / (avg (timers w (iter_timer L)) + 1 / 1000000) * 100) 100)
    \<and> fst (update_tensorplex tvd gs (L, w)) ''speed/io_bound_percent''
        = Some (min ((avg (timers w (fetch_timer L)) + 1 / 1000000)
                       / (avg (timers w (iter_timer L)) + 1 / 1000000) * 100) 100)
    \<and> (\<exists>c i. fst (update_tensorplex tvd gs (L, w)) ''speed/compute_bound_percent'' = Some c
            \<and> fst (update_tensorplex tvd gs (L, w)) ''speed/io_bound_percent'' = Some i
            \<and> 0 \<le> c \<and> c \<le> 100 \<and> 0 \<le> i \<and> i \<le> 100)
    \<and> (\<exists>(s :: (string, unit, unit) LearnerCore \<times> string world) c i.
            fst (update_tensorplex tvd gs s) ''speed/compute_bound_percent'' = Some c
            \<and> fst (update_tensorplex tvd gs s) ''speed/io_bound_percent'' = Some i
            \<and> c + i \<noteq> 100)"
proof -
  have nz: "avg (timers w (iter_timer L)) + 1 / 1000000 \<noteq> 0"
    using assms(3) by simp
  note V = update_tensorplex_values [of tvd gs L w]
  note R1 = percent_range [OF assms(1) assms(3)]
  note R2 = percent_range [OF assms(2) assms(3)]
  have rng: "\<exists>c i. fst (update_tensorplex tvd gs (L, w)) ''speed/compute_bound_percent'' = Some c
            \<and> fst (update_tensorplex tvd gs (L, w)) ''speed/io_bound_percent'' = Some i
            \<and> 0 \<le> c \<and> c \<le> 100 \<and> 0 \<le> i \<and> i \<le> 100"
    using V R1 R2 by blast
  have D: "fst (update_tensorplex tvd gs demo_timed) ''speed/compute_bound_percent''
             = Some (min ((5 / 2 + 1 / 1000000) / (7 / 2 + 1 / 1000000) * 100) 100)"
    "fst (update_tensorplex tvd gs demo_timed) ''speed/io_bound_percent''
             = Some (min ((5 / 2 + 1 / 1000000) / (7 / 2 + 1 / 1000000) * 100) 100)"
    using update_tensorplex_values [of tvd gs "fst demo_timed" "snd demo_timed"]
    by (simp_all add: demo_timed_avgs)
  have "min ((5 / 2 + 1 / 1000000) / (7 / 2 + 1 / 1000000) * 100) (100::real)
          + min ((5 / 2 + 1 / 1000000) / (7 / 2 + 1 / 1000000) * 100) 100 \<noteq> 100"
    by simp
  with D have ns: "\<exists>(s :: (string, unit, unit) LearnerCore \<times> string world) c i.
            fst (update_tensorplex tvd gs s) ''speed/compute_bound_percent'' = Some c
            \<and> fst (update_tensorplex tvd gs s) ''speed/io_bound_percent'' = Some i
            \<and> c + i \<noteq> 100"
    by blast
  from nz V rng ns show ?thesis by blast
qed

theorem bound_percent_clamped_witness:
  "(0::real) \<le> 5 / 2 \<and> (0::real) \<le> 7 / 2
   \<and> avg (timers (snd demo_timed) (learn_timer (fst demo_timed))) = 5 / 2
   \<and> avg (timers (snd demo_timed) (fetch_timer (fst demo_timed))) = 5 / 2
   \<and> avg (timers (snd demo_timed) (iter_timer (fst demo_timed))) = 7 / 2
   \<and> fst (update_tensorplex Map.empty None demo_timed) ''speed/compute_bound_percent''
        = Some (250000100 / 3500001)
   \<and> fst (update_tensorplex Map.empty None demo_timed) ''speed/io_bound_percent''
        = Some (250000100 / 3500001)"
proof -
  note A = demo_timed_avgs
  have h: "0 \<le> avg (timers (snd demo_timed) (learn_timer (fst demo_timed)))"
    "0 \<le> avg (timers (snd demo_timed) (fetch_timer (fst demo_timed)))"
    "0 \<le> avg (timers (snd demo_timed) (iter_timer (fst demo_timed)))"
    by (simp_all add: A)
  from bound_percent_clamped [OF h, of Map.empty None]
  have "fst (update_tensorplex Map.empty None demo_timed) ''speed/compute_bound_percent''
        = Some (min ((5 / 2 + 1 / 1000000) / (7 / 2 + 1 / 1000000) * 100) 100)"
    "fst (update_tensorplex Map.empty None demo_timed) ''speed/io_bound_percent''
        = Some (min ((5 / 2 + 1 / 1000000) / (7 / 2 + 1 / 1000000) * 100) 100)"
    by (simp_all add: A)
  moreover have "min ((5 / 2 + 1 / 1000000) / (7 / 2 + 1 / 1000000) * 100) (100::real)
                   = 250000100 / 3500001"
    by (simp add: field_simps)
  ultimately show ?thesis using A by simp
qed

subsection \<open>The registry\<close>

text \<open>
  Claim C10. A class statement with metaclass \<open>LearnerMeta\<close> enters the new class in
  \<open>learner_registry\<close> under its name, and \<open>learnerFactory\<close> of that name then returns the
  class. A later class statement with the same name replaces the entry, without any
  error; one with another name leaves it alone. After the import of the module, the
  registry holds \<open>LearnerCore\<close> and \<open>Learner\<close>.
\<close>

theorem learner_registry_roundtrip:
  "learnerFactory (cls_name (fst (LearnerMeta_new name bases d g)))
       (snd (LearnerMeta_new name bases d g)) = Return (fst (LearnerMeta_new name bases d g))
   \<and> cls_name (fst (LearnerMeta_new name bases d g)) = name
   \<and> learnerFactory name (snd (LearnerMeta_new name bases' d' (snd (LearnerMeta_new name bases d g))))
       = Return (fst (LearnerMeta_new name bases' d' (snd (LearnerMeta_new name bases d g))))
   \<and> fst (LearnerMeta_new name bases' d' (snd (LearnerMeta_new name bases d g)))
       \<noteq> fst (LearnerMeta_new name bases d g)
   \<and> (name' \<noteq> name \<longrightarrow>
        learnerFactory name (snd (LearnerMeta_new name' bases' d' (snd (LearnerMeta_new name bases d g))))
          = Return (fst (LearnerMeta_new name bases d g)))
   \<and> learnerFactory ''LearnerCore'' (import_module core_dict learner_dict)
       = Return \<lparr>cls_id = 0, cls_name = ''LearnerCore'', cls_bases = [], cls_dict = core_dict\<rparr>
   \<and> learnerFactory ''Learner'' (import_module core_dict learner_dict)
       = Return \<lparr>cls_id = 1, cls_name = ''Learner'', cls_bases = [0], cls_dict = learner_dict\<rparr>"
  by (simp add: LearnerMeta_new_def register_learner_def learnerFactory_def import_module_def
      globals0_def Let_def)

theorem learner_registry_roundtrip_witness:
  "''Learner'' \<noteq> ''DDPGLearner''
   \<and> learnerFactory ''DDPGLearner''
        (snd (LearnerMeta_new ''DDPGLearner'' [1] ''ddpg'' (import_module ''core'' ''learner'')))
       = Return \<lparr>cls_id = 2, cls_name = ''DDPGLearner'', cls_bases = [1], cls_dict = ''ddpg''\<rparr>
   \<and> learnerFactory ''DDPGLearner''
        (snd (LearnerMeta_new ''DDPGLearner'' [1] ''other''
           (snd (LearnerMeta_new ''DDPGLearner'' [1] ''ddpg'' (import_module ''core'' ''learner'')))))
       = Return \<lparr>cls_id = 3, cls_name = ''DDPGLearner'', cls_bases = [1], cls_dict = ''other''\<rparr>
   \<and> learnerFactory ''DDPGLearner''
        (snd (LearnerMeta_new ''Learner'' [1] ''other''
           (snd (LearnerMeta_new ''DDPGLearner'' [1] ''ddpg'' (import_module ''core'' ''learner'')))))
       = Return \<lparr>cls_id = 2, cls_name = ''DDPGLearner'', cls_bases = [1], cls_dict = ''ddpg''\<rparr>
   \<and> learnerFactory ''PPOLearner'' (import_module ''core'' ''learner'') = Raise (KeyError ''PPOLearner'')"
  using learner_registry_roundtrip [of "''DDPGLearner''" "[1]" "''ddpg''"
      "import_module ''core'' ''learner''" "[1]" "''other''" "''Learner''" "''core''" "''learner''"]
  by (simp add: LearnerMeta_new_def register_learner_def learnerFactory_def import_module_def
      globals0_def Let_def)

end
